theory Spec2Isabelle
  imports Complex_Main "HOL-Library.Sublist" "HOL-Library.Multiset"
begin

section \<open>Strings\<close>

text \<open>
  A JavaScript string is the list of its code units, and a code unit is a \<open>char\<close>:
  the strings of the model are the texts whose code units are below 256 (Latin-1),
  one \<open>char\<close> for each unit, so that \<open>length\<close> is the \<open>length\<close> property. The
  helpers below are the \<open>String.prototype\<close> methods the sources call.
\<close>

text \<open>\<open>s.startsWith(p)\<close>\<close>

fun startsWith :: "string \<Rightarrow> string \<Rightarrow> bool" where
  "startsWith s [] = True"
| "startsWith [] (p # ps) = False"
| "startsWith (c # cs) (p # ps) = (c = p \<and> startsWith cs ps)"

text \<open>\<open>s.includes(p)\<close>: \<open>p\<close> occurs in \<open>s\<close> as a contiguous substring.\<close>

fun str_includes :: "string \<Rightarrow> string \<Rightarrow> bool" where
  "str_includes [] p = (p = [])"
| "str_includes (c # cs) p = (startsWith (c # cs) p \<or> str_includes cs p)"

text \<open>\<open>s.split(c)\<close> for a one-character separator; never returns the empty list.\<close>

fun split_on :: "char \<Rightarrow> string \<Rightarrow> string list" where
  "split_on c [] = [[]]"
| "split_on c (x # xs) =
     (if x = c then [] # split_on c xs
      else (case split_on c xs of [] \<Rightarrow> [[x]] | w # ws \<Rightarrow> (x # w) # ws))"

text \<open>
  White space as \<open>\s\<close> and \<open>trim()\<close> see it. Below 256 these are TAB, LF, VT, FF,
  CR, the space and the no-break space U+00A0.
\<close>

definition is_space :: "char \<Rightarrow> bool" where
  "is_space c =
     (c \<in> set [CHR 0x09, CHR 0x0A, CHR 0x0B, CHR 0x0C, CHR 0x0D, CHR '' '', CHR 0xA0])"

definition trim :: "string \<Rightarrow> string" where
  "trim s = rev (dropWhile is_space (rev (dropWhile is_space s)))"

text \<open>
  Line terminators, which the regular-expression dot does not match. Below 256 these
  are LF and CR.
\<close>

definition is_line_terminator :: "char \<Rightarrow> bool" where
  "is_line_terminator c = (c = CHR 0x0A \<or> c = CHR 0x0D)"

section \<open>The POSIX \<open>path\<close> module\<close>

text \<open>
  \<open>path.basename\<close>, \<open>path.extname\<close>, \<open>path.dirname\<close> and \<open>path.join\<close> of the
  Node.js runtime, for POSIX paths (\<open>path.sep\<close> is the slash).
\<close>

definition basename :: "string \<Rightarrow> string" where
  "basename p = rev (takeWhile (\<lambda>c. c \<noteq> CHR ''/'') (dropWhile (\<lambda>c. c = CHR ''/'') (rev p)))"

text \<open>
  The extension starts at the last dot of the last path component; there is none when
  the component has no dot, when its only dot is its first character, or when the
  component is \<open>..\<close>.
\<close>

definition extname :: "string \<Rightarrow> string" where
  "extname p =
     (let b = basename p;
          after = takeWhile (\<lambda>c. c \<noteq> CHR ''.'') (rev b);
          upto = dropWhile (\<lambda>c. c \<noteq> CHR ''.'') (rev b)
      in if upto = [] then []
         else if tl upto = [] then []
         else if b = ''..'' then []
         else CHR ''.'' # rev after)"

definition dirname :: "string \<Rightarrow> string" where
  "dirname p =
     (if p = [] then ''.''
      else
        let hasRoot = (hd p = CHR ''/'');
            r = dropWhile (\<lambda>c. c \<noteq> CHR ''/'') (dropWhile (\<lambda>c. c = CHR ''/'') (rev (tl p)))
        in if r = [] then (if hasRoot then ''/'' else ''.'')
           else if hasRoot \<and> tl r = [] then ''//''
           else hd p # rev (tl r))"

text \<open>One step of \<open>normalizeString\<close>: the segments kept so far, last one first.\<close>

definition normalize_step :: "bool \<Rightarrow> string \<Rightarrow> string list \<Rightarrow> string list" where
  "normalize_step allowAboveRoot seg stack =
     (if seg = [] \<or> seg = ''.'' then stack
      else if seg = ''..'' then
        (case stack of
           [] \<Rightarrow> if allowAboveRoot then [''..''] else []
         | seg' # rest \<Rightarrow>
             if seg' \<noteq> ''..'' then rest
             else if allowAboveRoot then ''..'' # stack else stack)
      else seg # stack)"

fun intercalate :: "string \<Rightarrow> string list \<Rightarrow> string" where
  "intercalate sep [] = []"
| "intercalate sep [x] = x"
| "intercalate sep (x # y # ys) = x @ sep @ intercalate sep (y # ys)"

definition normalizeString :: "string \<Rightarrow> bool \<Rightarrow> string" where
  "normalizeString p allowAboveRoot =
     intercalate ''/'' (rev (fold (normalize_step allowAboveRoot) (split_on CHR ''/'' p) []))"

definition path_normalize :: "string \<Rightarrow> string" where
  "path_normalize p =
     (if p = [] then ''.''
      else
        let isAbsolute = (hd p = CHR ''/'');
            trailingSeparator = (last p = CHR ''/'');
            q = normalizeString p (\<not> isAbsolute)
        in if q = [] then (if isAbsolute then ''/'' else if trailingSeparator then ''./'' else ''.'')
           else
             let q' = (if trailingSeparator then q @ ''/'' else q)
             in if isAbsolute then CHR ''/'' # q' else q')"

text \<open>\<open>path.join(a, b)\<close>: empty arguments are skipped.\<close>

definition path_join :: "string \<Rightarrow> string \<Rightarrow> string" where
  "path_join a b =
     (let parts = filter (\<lambda>s. s \<noteq> []) [a, b]
      in if parts = [] then ''.'' else path_normalize (intercalate ''/'' parts))"

section \<open>Scanner: \<open>categorizeFiles\<close>\<close>

record categories =
  code :: "string list"
  config :: "string list"
  docs :: "string list"
  tests :: "string list"
  assets :: "string list"
  other :: "string list"

definition codeExtensions :: "string list" where
  "codeExtensions =
     [''.js'', ''.ts'', ''.jsx'', ''.tsx'', ''.py'', ''.rb'', ''.go'', ''.java'', ''.c'', ''.cpp'', ''.rs'']"

definition configFiles :: "string list" where
  "configFiles =
     [''package.json'', ''tsconfig.json'', ''.eslintrc'', ''.prettierrc'',
      ''webpack.config.js'', ''vite.config.js'']"

definition docExtensions :: "string list" where
  "docExtensions = [''.md'', ''.txt'', ''.rst'', ''.adoc'']"

definition testPatterns :: "string list" where
  "testPatterns = [''.test.'', ''.spec.'', ''__tests__'', ''test/'', ''tests/'']"

definition assetExtensions :: "string list" where
  "assetExtensions =
     [''.png'', ''.jpg'', ''.jpeg'', ''.gif'', ''.svg'', ''.ico'', ''.woff'', ''.woff2'', ''.ttf'']"

text \<open>The body of the loop of \<open>categorizeFiles\<close>: one file is pushed onto one list.\<close>

definition categorize_file :: "string \<Rightarrow> categories \<Rightarrow> categories" where
  "categorize_file file cats =
     (let ext = extname file;
          bn = basename file
      in if list_ex (\<lambda>p. str_includes file p) testPatterns then
           cats\<lparr>tests := tests cats @ [file]\<rparr>
         else if ext \<in> set codeExtensions then
           cats\<lparr>code := code cats @ [file]\<rparr>
         else if list_ex (\<lambda>c. str_includes bn c) configFiles
                 \<or> ext = ''.json'' \<or> ext = ''.yaml'' \<or> ext = ''.yml'' then
           cats\<lparr>config := config cats @ [file]\<rparr>
         else if ext \<in> set docExtensions then
           cats\<lparr>docs := docs cats @ [file]\<rparr>
         else if ext \<in> set assetExtensions then
           cats\<lparr>assets := assets cats @ [file]\<rparr>
         else
           cats\<lparr>other := other cats @ [file]\<rparr>)"

definition categorizeFiles :: "string list \<Rightarrow> categories" where
  "categorizeFiles files =
     fold categorize_file files
       \<lparr>code = [], config = [], docs = [], tests = [], assets = [], other = []\<rparr>"

text \<open>
  The classification as the specification words it: six rules tried in order, the first
  that applies decides. A test marker is a substring of the whole path; the basename is
  a known config filename.
\<close>

datatype category = Code | Config | Docs | Tests | Assets | Other

definition spec_category :: "string \<Rightarrow> category" where
  "spec_category file =
     (if \<exists>p \<in> set testPatterns. str_includes file p then Tests
      else if extname file \<in> set codeExtensions then Code
      else if basename file \<in> set configFiles
              \<or> extname file \<in> {''.json'', ''.yaml'', ''.yml''} then Config
      else if extname file \<in> set docExtensions then Docs
      else if extname file \<in> set assetExtensions then Assets
      else Other)"

text \<open>
  The same six rules with the third one widened: a known config filename occurs in the
  basename as a substring.
\<close>

definition first_match_category :: "string \<Rightarrow> category" where
  "first_match_category file =
     (if \<exists>p \<in> set testPatterns. str_includes file p then Tests
      else if extname file \<in> set codeExtensions then Code
      else if (\<exists>c \<in> set configFiles. str_includes (basename file) c)
              \<or> extname file \<in> {''.json'', ''.yaml'', ''.yml''} then Config
      else if extname file \<in> set docExtensions then Docs
      else if extname file \<in> set assetExtensions then Assets
      else Other)"

definition category_list :: "categories \<Rightarrow> category \<Rightarrow> string list" where
  "category_list cats c =
     (case c of Code \<Rightarrow> code cats | Config \<Rightarrow> config cats | Docs \<Rightarrow> docs cats
      | Tests \<Rightarrow> tests cats | Assets \<Rightarrow> assets cats | Other \<Rightarrow> other cats)"

section \<open>Scanner: \<open>getFileStats\<close>\<close>

text \<open>
  The two histograms are JavaScript objects used as counters; they are modelled as maps
  from keys to counts. \<open>(m[k] || 0) + 1\<close> reads a missing key as zero. (Keys that
  an object inherits from its prototype, such as a directory called \<open>constructor\<close>,
  are not covered.)
\<close>

definition bump :: "(string \<rightharpoonup> nat) \<Rightarrow> string \<Rightarrow> (string \<rightharpoonup> nat)" where
  "bump m k = m(k \<mapsto> (case m k of None \<Rightarrow> 0 | Some n \<Rightarrow> n) + 1)"

record file_stats =
  total :: nat
  byExtension :: "string \<rightharpoonup> nat"
  byDirectory :: "string \<rightharpoonup> nat"
  totalSize :: nat

text \<open>\<open>path.extname(file) || '(no extension)'\<close>\<close>

definition extension_key :: "string \<Rightarrow> string" where
  "extension_key file = (let e = extname file in if e = [] then ''(no extension)'' else e)"

text \<open>\<open>path.dirname(file).split(path.sep)[0] || '.'\<close>\<close>

definition directory_key :: "string \<Rightarrow> string" where
  "directory_key file =
     (case split_on CHR ''/'' (dirname file) of
        [] \<Rightarrow> ''.''
      | d # _ \<Rightarrow> if d = [] then ''.'' else d)"

text \<open>
  The body of the loop of \<open>getFileStats\<close>. \<open>stat_size file\<close> is the size that
  \<open>fs.stat\<close> reports, \<open>None\<close> when it throws; a file that cannot be read adds
  nothing to the total size.
\<close>

definition stats_step :: "(string \<Rightarrow> nat option) \<Rightarrow> string \<Rightarrow> file_stats \<Rightarrow> file_stats" where
  "stats_step stat_size file stats =
     stats\<lparr>byExtension := bump (byExtension stats) (extension_key file),
           byDirectory := bump (byDirectory stats) (directory_key file),
           totalSize := (case stat_size file of
                           Some n \<Rightarrow> totalSize stats + n
                         | None \<Rightarrow> totalSize stats)\<rparr>"

definition getFileStats :: "(string \<Rightarrow> nat option) \<Rightarrow> string list \<Rightarrow> file_stats" where
  "getFileStats stat_size files =
     fold (stats_step stat_size) files
       \<lparr>total = length files, byExtension = Map.empty, byDirectory = Map.empty, totalSize = 0\<rparr>"

section \<open>JSON values\<close>

text \<open>
  What \<open>JSON.parse\<close> returns. An object is the list of its properties in the order
  \<open>Object.keys\<close> enumerates them, with distinct keys.
\<close>

datatype json =
    JNull
  | JBool bool
  | JNum real
  | JStr string
  | JArr "json list"
  | JObj "(string \<times> json) list"

text \<open>Truthiness, as \<open>||\<close> and \<open>if\<close> test it.\<close>

fun truthy :: "json \<Rightarrow> bool" where
  "truthy JNull = False"
| "truthy (JBool b) = b"
| "truthy (JNum x) = (x \<noteq> 0)"
| "truthy (JStr s) = (s \<noteq> [])"
| "truthy (JArr xs) = True"
| "truthy (JObj kvs) = True"

text \<open>
  Reading a property \<open>v.k\<close> for a key that no prototype defines: a \<open>TypeError\<close> on
  \<open>null\<close> (\<open>None\<close>), the property's value on an object that has it, and
  \<open>undefined\<close> (\<open>Some None\<close>) otherwise.
\<close>

fun get_prop :: "json \<Rightarrow> string \<Rightarrow> json option option" where
  "get_prop JNull k = None"
| "get_prop (JObj kvs) k = Some (map_of kvs k)"
| "get_prop v k = Some None"

text \<open>\<open>v || {}\<close> for a property value \<open>v\<close> that may be \<open>undefined\<close>.\<close>

definition or_empty_object :: "json option \<Rightarrow> json" where
  "or_empty_object v = (case v of None \<Rightarrow> JObj [] | Some x \<Rightarrow> if truthy x then x else JObj [])"

text \<open>\<open>Object.values(v)\<close> for a truthy value that is not a string.\<close>

fun object_values :: "json \<Rightarrow> json list" where
  "object_values (JObj kvs) = map snd kvs"
| "object_values (JArr xs) = xs"
| "object_values v = []"

section \<open>The host: file system and JSON parser\<close>

text \<open>
  The analyzer reads the file system and calls \<open>JSON.parse\<close>. Both are parameters:
  \<open>readFile p\<close> is the text of the file at \<open>p\<close> (\<open>None\<close> when \<open>fs.readFile\<close>
  throws), \<open>access p\<close> tells whether \<open>fs.access\<close> succeeds, \<open>stat p\<close> is the
  size from \<open>fs.stat\<close> (\<open>None\<close> when it throws), and \<open>JSON_parse s\<close> is the
  parsed value, or the message of the error that \<open>JSON.parse\<close> throws.
\<close>

record host =
  readFile :: "string \<Rightarrow> string option"
  access :: "string \<Rightarrow> bool"
  stat :: "string \<Rightarrow> nat option"
  JSON_parse :: "string \<Rightarrow> string + json"

section \<open>Analyzer\<close>

subsection \<open>\<open>parseRequirements\<close>\<close>

definition is_name_char :: "char \<Rightarrow> bool" where
  "is_name_char c =
     (c \<in> set ''abcdefghijklmnopqrstuvwxyzABCDEFGHIJKLMNOPQRSTUVWXYZ0123456789_-'')"

definition is_spec_char :: "char \<Rightarrow> bool" where
  "is_spec_char c = (c \<in> set ''<>=!'')"

text \<open>
  The match of \<open>/^([a-zA-Z0-9_-]+)([<>=!]+.+)?$/\<close> against a trimmed line: the first
  group is the longest run of name characters; what follows is either nothing (the
  second group is undefined), or an operator character followed by at least one more
  character, none of them a line terminator (the second group is all of it).
\<close>

definition match_requirement :: "string \<Rightarrow> (string \<times> string option) option" where
  "match_requirement s =
     (let name = takeWhile is_name_char s;
          rest = dropWhile is_name_char s
      in if name = [] then None
         else if rest = [] then Some (name, None)
         else if is_spec_char (hd rest) \<and> 2 \<le> length rest \<and> \<not> list_ex is_line_terminator rest
           then Some (name, Some rest)
         else None)"

text \<open>
  \<open>obj[k] = v\<close> on an object kept as a property list: the value of an existing key
  is replaced where it stands, a new key goes to the end. (Keys that look like array
  indices, which JavaScript enumerates first, and the key \<open>__proto__\<close> are not
  covered.)
\<close>

fun set_prop :: "string \<Rightarrow> 'v \<Rightarrow> (string \<times> 'v) list \<Rightarrow> (string \<times> 'v) list" where
  "set_prop k v [] = [(k, v)]"
| "set_prop k v (p # ps) = (if fst p = k then (k, v) # ps else p # set_prop k v ps)"

definition requirement_line :: "string \<Rightarrow> (string \<times> json) list \<Rightarrow> (string \<times> json) list" where
  "requirement_line line deps =
     (let trimmed = trim line
      in if trimmed \<noteq> [] \<and> \<not> startsWith trimmed ''#'' then
           (case match_requirement trimmed of
              Some (name, spec) \<Rightarrow>
                set_prop name (JStr (case spec of Some v \<Rightarrow> v | None \<Rightarrow> ''*'')) deps
            | None \<Rightarrow> deps)
         else deps)"

definition parseRequirements :: "string \<Rightarrow> json" where
  "parseRequirements content = JObj (fold requirement_line (split_on CHR 0x0A content) [])"

subsection \<open>\<open>analyzeDependencies\<close>\<close>

record dep_info =
  manager :: "string option"
  dependencies :: json
  devDependencies :: json

text \<open>
  The first \<open>try\<close> block. It returns \<open>(deps, True)\<close> when it reaches its
  \<open>return\<close> and \<open>(deps, False)\<close> when something in it throws; in the second case
  the assignments made before the throw stay.
\<close>

definition probe_package_json :: "host \<Rightarrow> string \<Rightarrow> dep_info \<Rightarrow> dep_info \<times> bool" where
  "probe_package_json h projectPath deps =
     (case readFile h (path_join projectPath ''package.json'') of
        None \<Rightarrow> (deps, False)
      | Some text \<Rightarrow>
          (case JSON_parse h text of
             Inl err \<Rightarrow> (deps, False)
           | Inr packageJson \<Rightarrow>
               let deps1 = deps\<lparr>manager := Some ''npm''\<rparr>
               in (case get_prop packageJson ''dependencies'' of
                     None \<Rightarrow> (deps1, False)
                   | Some d \<Rightarrow>
                       let deps2 = deps1\<lparr>dependencies := or_empty_object d\<rparr>
                       in (case get_prop packageJson ''devDependencies'' of
                             None \<Rightarrow> (deps2, False)
                           | Some dd \<Rightarrow> (deps2\<lparr>devDependencies := or_empty_object dd\<rparr>, True)))))"

definition probe_requirements :: "host \<Rightarrow> string \<Rightarrow> dep_info \<Rightarrow> dep_info \<times> bool" where
  "probe_requirements h projectPath deps =
     (case readFile h (path_join projectPath ''requirements.txt'') of
        None \<Rightarrow> (deps, False)
      | Some requirements \<Rightarrow>
          (deps\<lparr>manager := Some ''pip'', dependencies := parseRequirements requirements\<rparr>, True))"

definition probe_pyproject :: "host \<Rightarrow> string \<Rightarrow> dep_info \<Rightarrow> dep_info \<times> bool" where
  "probe_pyproject h projectPath deps =
     (if access h (path_join projectPath ''pyproject.toml'')
      then (deps\<lparr>manager := Some ''poetry/pip''\<rparr>, True)
      else (deps, False))"

definition analyzeDependencies :: "host \<Rightarrow> string \<Rightarrow> dep_info" where
  "analyzeDependencies h projectPath =
     (let deps = \<lparr>manager = None, dependencies = JObj [], devDependencies = JObj []\<rparr>;
          (deps, returned) = probe_package_json h projectPath deps
      in if returned then deps
         else
           let (deps, returned) = probe_requirements h projectPath deps
           in if returned then deps
              else
                let (deps, returned) = probe_pyproject h projectPath deps
                in deps)"

subsection \<open>\<open>findEntryPoints\<close>\<close>

definition commonEntries :: "string list" where
  "commonEntries =
     [''index.js'', ''index.ts'', ''main.js'', ''main.ts'',
      ''app.js'', ''app.ts'', ''server.js'', ''server.ts'',
      ''src/index.js'', ''src/index.ts'', ''src/main.js'', ''src/main.ts'',
      ''src/app.js'', ''src/app.ts'',
      ''main.py'', ''app.py'', ''__main__.py'',
      ''cmd/main.go'', ''main.go'']"

text \<open>
  The \<open>try\<close> block of \<open>findEntryPoints\<close>: what it pushes after the conventional
  entries. A throw (no \<open>package.json\<close>, invalid JSON, or the value \<open>null\<close>)
  happens before anything is pushed.
\<close>

definition manifest_entries :: "host \<Rightarrow> string \<Rightarrow> json list" where
  "manifest_entries h projectPath =
     (case readFile h (path_join projectPath ''package.json'') of
        None \<Rightarrow> []
      | Some text \<Rightarrow>
          (case JSON_parse h text of
             Inl err \<Rightarrow> []
           | Inr packageJson \<Rightarrow>
               (case get_prop packageJson ''main'' of
                  None \<Rightarrow> []
                | Some m \<Rightarrow>
                    (case m of Some v \<Rightarrow> if truthy v then [v] else [] | None \<Rightarrow> [])
                    @ (case get_prop packageJson ''bin'' of
                         None \<Rightarrow> []
                       | Some None \<Rightarrow> []
                       | Some (Some b) \<Rightarrow>
                           if truthy b then
                             (case b of JStr s \<Rightarrow> [b] | _ \<Rightarrow> object_values b)
                           else []))))"

text \<open>
  \<open>[...new Set(xs)]\<close>: the first occurrence of every value is kept. A \<open>Set\<close> compares
  primitive values by value; two objects or arrays of the parsed manifest are never the
  same object.
\<close>

fun same_value :: "json \<Rightarrow> json \<Rightarrow> bool" where
  "same_value (JArr xs) y = False"
| "same_value (JObj kvs) y = False"
| "same_value x y = (x = y)"

definition set_add :: "json \<Rightarrow> json list \<Rightarrow> json list" where
  "set_add x acc = (if list_ex (same_value x) acc then acc else acc @ [x])"

definition unique_values :: "json list \<Rightarrow> json list" where
  "unique_values xs = fold set_add xs []"

definition findEntryPoints :: "host \<Rightarrow> string \<Rightarrow> string list \<Rightarrow> json list" where
  "findEntryPoints h projectPath files =
     (let entryPoints =
            map JStr (filter (\<lambda>entry. path_join projectPath entry \<in> set files) commonEntries)
            @ manifest_entries h projectPath
      in unique_values entryPoints)"

subsection \<open>\<open>analyzeProject\<close>\<close>

text \<open>
  The analysis record (its fields \<open>name\<close>, \<open>path\<close>, \<open>files\<close>, \<open>stats\<close>,
  \<open>categories\<close> and \<open>dependencies\<close> under longer names), without the fields
  \<open>structure\<close> and \<open>techStack\<close>, which nothing below reads.
\<close>

record project_facts =
  projectName :: string
  rootPath :: string
  fileList :: "string list"
  fileStats :: file_stats
  fileCategories :: categories
  dependencyInfo :: dep_info
  entryPoints :: "json list"

definition analyzeProject :: "host \<Rightarrow> string \<Rightarrow> string list \<Rightarrow> project_facts" where
  "analyzeProject h projectPath files =
     \<lparr>projectName = basename projectPath,
      rootPath = projectPath,
      fileList = files,
      fileStats = getFileStats (stat h) files,
      fileCategories = categorizeFiles files,
      dependencyInfo = analyzeDependencies h projectPath,
      entryPoints = findEntryPoints h projectPath files\<rparr>"

subsection \<open>The probing order as the specification words it\<close>

text \<open>
  A probe succeeds when its \<open>try\<close> block runs to its \<open>return\<close>: the Node
  manifest can be read and parses to a value other than \<open>null\<close>, the requirements
  list can be read, the Python project manifest can be accessed. The first probe that
  succeeds, in this order, names the manager.
\<close>

definition node_manifest_ok :: "host \<Rightarrow> string \<Rightarrow> bool" where
  "node_manifest_ok h projectPath =
     (case readFile h (path_join projectPath ''package.json'') of
        None \<Rightarrow> False
      | Some text \<Rightarrow> (case JSON_parse h text of Inl err \<Rightarrow> False | Inr v \<Rightarrow> v \<noteq> JNull))"

definition requirements_ok :: "host \<Rightarrow> string \<Rightarrow> bool" where
  "requirements_ok h projectPath = (readFile h (path_join projectPath ''requirements.txt'') \<noteq> None)"

definition pyproject_ok :: "host \<Rightarrow> string \<Rightarrow> bool" where
  "pyproject_ok h projectPath = access h (path_join projectPath ''pyproject.toml'')"

definition spec_manager :: "host \<Rightarrow> string \<Rightarrow> string option" where
  "spec_manager h projectPath =
     (if node_manifest_ok h projectPath then Some ''npm''
      else if requirements_ok h projectPath then Some ''pip''
      else if pyproject_ok h projectPath then Some ''poetry/pip''
      else None)"

text \<open>
  Two hosts for concrete runs: the project \<open>/proj\<close> with \<open>index.js\<close> and
  \<open>requirements.txt\<close>, and the project \<open>/app\<close> with both a \<open>package.json\<close>
  and a \<open>requirements.txt\<close>. The only manifest text they hold is \<open>{}\<close>.
\<close>

definition json_sample :: "string \<Rightarrow> string + json" where
  "json_sample s = (if s = ''{}'' then Inr (JObj []) else Inl ''Unexpected end of JSON input'')"

definition host1 :: host where
  "host1 =
     \<lparr>readFile = (\<lambda>p. if p = ''/proj/index.js'' then Some ''export function main() {}''
                      else if p = ''/proj/requirements.txt'' then Some ''flask==2.0''
                      else None),
      access = (\<lambda>p. p = ''/proj/index.js'' \<or> p = ''/proj/requirements.txt''),
      stat = (\<lambda>p. if p = ''/proj/index.js'' then Some 25
                  else if p = ''/proj/requirements.txt'' then Some 10
                  else None),
      JSON_parse = json_sample\<rparr>"

definition host2 :: host where
  "host2 =
     \<lparr>readFile = (\<lambda>p. if p = ''/app/package.json'' then Some ''{}''
                      else if p = ''/app/requirements.txt'' then Some ''flask==2.0''
                      else None),
      access = (\<lambda>p. p = ''/app/package.json'' \<or> p = ''/app/requirements.txt''),
      stat = (\<lambda>p. if p = ''/app/package.json'' then Some 2
                  else if p = ''/app/requirements.txt'' then Some 10
                  else None),
      JSON_parse = json_sample\<rparr>"

section \<open>Parser: the file record\<close>

text \<open>
  The objects that \<open>parseFile\<close> builds. A property that one of the parsers does not
  set is \<open>None\<close> (\<open>undefined\<close>). Field names carry the record's prefix, since the
  sources reuse \<open>name\<close>, \<open>line\<close> and \<open>type\<close> in every object.
\<close>

record specifier_info =
  spec_type :: string
  spec_name :: string
  spec_imported :: "string option"

record import_info =
  imp_source :: string
  imp_specifiers :: "specifier_info list option"
  imp_line :: nat

record export_info =
  exp_type :: string
  exp_name :: "string option"
  exp_line :: nat

record function_info =
  fn_name :: string
  fn_params :: "string list"
  fn_async :: "bool option"
  fn_generator :: "bool option"
  fn_arrow :: "bool option"
  fn_line :: nat
  fn_exported :: "bool option"
  fn_isMethod :: "bool option"

record method_info =
  m_name :: "string option"
  m_kind :: string
  m_static :: bool

record class_info =
  cls_name :: "string option"
  cls_superClass :: "string option"
  cls_methods :: "method_info list option"
  cls_line :: nat
  cls_exported :: "bool option"

record variable_info =
  var_name :: string
  var_kind :: "string option"
  var_line :: nat

record comment_info =
  cm_type :: string
  cm_value :: string
  cm_start :: nat
  cm_end :: nat

section \<open>Parser: JSON structure\<close>

text \<open>
  The descriptor that \<open>getJSONStructure\<close> returns: a string (a \<open>typeof\<close> tag, the
  placeholder \<open>...\<close>, or the note about further keys), an array descriptor with its
  length and the descriptor of its first item (\<open>null\<close> for an empty array), or an
  object descriptor with its \<open>keys\<close> object.
\<close>

datatype jstruct =
    SString string
  | SArray nat "jstruct option"
  | SObject "(string \<times> jstruct) list"

text \<open>A number in a template string.\<close>

function show_nat :: "nat \<Rightarrow> string" where
  "show_nat n =
     (if n < 10 then [''0123456789'' ! n]
      else show_nat (n div 10) @ [''0123456789'' ! (n mod 10)])"
  by pat_completeness auto
termination
  by (relation "measure id") auto

text \<open>\<open>typeof\<close> of a value that is neither an array nor a non-null object.\<close>

fun typeof_json :: "json \<Rightarrow> string" where
  "typeof_json (JBool b) = ''boolean''"
| "typeof_json (JNum x) = ''number''"
| "typeof_json (JStr s) = ''string''"
| "typeof_json v = ''object''"

function getJSONStructure :: "json \<Rightarrow> nat \<Rightarrow> jstruct" where
  "getJSONStructure obj depth =
     (if depth > 3 then SString ''...''
      else
        (case obj of
           JArr xs \<Rightarrow>
             SArray (length xs)
               (case xs of [] \<Rightarrow> None | x # _ \<Rightarrow> Some (getJSONStructure x (depth + 1)))
         | JObj kvs \<Rightarrow>
             let structure =
                   fold (\<lambda>kv s. set_prop (fst kv) (getJSONStructure (snd kv) (depth + 1)) s)
                     (take 10 kvs) [];
                 structure =
                   (if length kvs > 10
                    then set_prop ''...'' (SString (show_nat (length kvs - 10) @ '' more keys''))
                           structure
                    else structure)
             in SObject structure
         | _ \<Rightarrow> SString (typeof_json obj)))"
  by pat_completeness auto
termination
  by (relation "measure (\<lambda>(obj, depth). 4 - depth)") auto

text \<open>The values \<open>getJSONStructure\<close> is compared on: nested one-key objects.\<close>

fun nested :: "nat \<Rightarrow> json" where
  "nested 0 = JObj []"
| "nested (Suc n) = JObj [(''a'', nested n)]"

text \<open>
  A value with everything below depth 3 cut away: what lies at depth 4 or deeper is
  replaced by \<open>null\<close>.
\<close>

function prune :: "nat \<Rightarrow> json \<Rightarrow> json" where
  "prune depth v =
     (if depth > 3 then JNull
      else
        (case v of
           JArr xs \<Rightarrow> JArr (map (prune (depth + 1)) xs)
         | JObj kvs \<Rightarrow> JObj (map (\<lambda>kv. (fst kv, prune (depth + 1) (snd kv))) kvs)
         | _ \<Rightarrow> v))"
  by pat_completeness auto
termination
  by (relation "measure (\<lambda>(depth, v). 4 - depth)") auto

declare getJSONStructure.simps [simp del] prune.simps [simp del] show_nat.simps [simp del]

section \<open>Parser: the syntax tree\<close>

text \<open>
  The tree that \<open>acorn.parse\<close> returns, with the node types that the visitors of
  \<open>parseJavaScript\<close> look at and the properties they read; every other node is an
  \<open>OtherNode\<close>. The \<open>nat\<close> of a node is \<open>loc.start.line\<close>. A node list at the
  end of a constructor holds the child nodes that the walker descends into (for a
  function: what its parameters contain, and its body), in the order it does so.

  A parameter is an identifier, an assignment pattern with its left side, or something
  else; they are the cases that \<open>p.name || p.left?.name || 'param'\<close> tells apart.
\<close>

datatype param = PIdentifier string | PAssignment param | POther

text \<open>A member of a class body: a method with \<open>key.name\<close>, \<open>kind\<close> and \<open>static\<close>.\<close>

datatype member = MethodDefinition "string option" string bool | OtherMember

text \<open>
  \<^item> \<open>ImportDeclaration line source.value specifiers\<close>
  \<^item> \<open>ExportNamedDeclaration line declaration specifiers\<close>, each specifier given by its
    \<open>exported.name\<close>
  \<^item> \<open>ExportDefaultDeclaration line declaration\<close>
  \<^item> \<open>FunctionDeclaration line id.name params async generator children\<close>
  \<^item> \<open>ClassDeclaration line id.name superClass.name body.body children\<close>
  \<^item> \<open>VariableDeclaration line kind declarations\<close>
  \<^item> \<open>FunctionExpression id.name params async children\<close>
  \<^item> \<open>ArrowFunctionExpression params async children\<close>
  \<^item> \<open>ClassExpression id.name children\<close>
  \<^item> \<open>Identifier name\<close>
  \<^item> \<open>VariableDeclarator id children init\<close>: \<open>id\<close> is the name when the target is
    an identifier and \<open>None\<close> when it is a destructuring pattern, whose nodes are the
    children.
\<close>

datatype node =
    ImportDeclaration nat string "specifier_info list"
  | ExportNamedDeclaration nat "node option" "string option list"
  | ExportDefaultDeclaration nat node
  | FunctionDeclaration nat "string option" "param list" bool bool "node list"
  | ClassDeclaration nat "string option" "string option" "member list" "node list"
  | VariableDeclaration nat string "declarator list"
  | FunctionExpression "string option" "param list" bool "node list"
  | ArrowFunctionExpression "param list" bool "node list"
  | ClassExpression "string option" "node list"
  | Identifier string
  | OtherNode "node list"
and declarator = VariableDeclarator "string option" "node list" "node option"

text \<open>
  \<open>walk.simple\<close> calls the visitor of a node after it has walked the node's children.
  \<open>postorder\<close> lists the nodes of a tree in the order of these calls.
\<close>

fun postorder :: "node \<Rightarrow> node list"
  and postorder_declarator :: "declarator \<Rightarrow> node list" where
  "postorder (ImportDeclaration l s sp) = [ImportDeclaration l s sp]"
| "postorder (ExportNamedDeclaration l d sp) =
     (case d of None \<Rightarrow> [] | Some n \<Rightarrow> postorder n) @ [ExportNamedDeclaration l d sp]"
| "postorder (ExportDefaultDeclaration l d) = postorder d @ [ExportDefaultDeclaration l d]"
| "postorder (FunctionDeclaration l i ps a g cs) =
     concat (map postorder cs) @ [FunctionDeclaration l i ps a g cs]"
| "postorder (ClassDeclaration l i sc ms cs) =
     concat (map postorder cs) @ [ClassDeclaration l i sc ms cs]"
| "postorder (VariableDeclaration l k ds) =
     concat (map postorder_declarator ds) @ [VariableDeclaration l k ds]"
| "postorder (FunctionExpression i ps a cs) =
     concat (map postorder cs) @ [FunctionExpression i ps a cs]"
| "postorder (ArrowFunctionExpression ps a cs) =
     concat (map postorder cs) @ [ArrowFunctionExpression ps a cs]"
| "postorder (ClassExpression i cs) = concat (map postorder cs) @ [ClassExpression i cs]"
| "postorder (Identifier n) = [Identifier n]"
| "postorder (OtherNode cs) = concat (map postorder cs) @ [OtherNode cs]"
| "postorder_declarator (VariableDeclarator i cs init) =
     concat (map postorder cs) @ (case init of None \<Rightarrow> [] | Some e \<Rightarrow> postorder e)"

section \<open>Parser: \<open>parseFile\<close>\<close>

text \<open>
  The record that \<open>parseFile\<close> returns. Its properties \<open>lines\<close>, \<open>size\<close>,
  \<open>exports\<close>, \<open>imports\<close>, \<open>functions\<close>, \<open>classes\<close>, \<open>variables\<close>,
  \<open>comments\<close> and \<open>structure\<close> are the fields \<open>fileLines\<close> to
  \<open>jsonStructure\<close>; \<open>parseError\<close> and \<open>jsonStructure\<close> are \<open>None\<close> until
  a parser sets them.
\<close>

record file_record =
  filePath :: string
  fileName :: string
  extension :: string
  fileLines :: nat
  fileSize :: nat
  fileExports :: "export_info list"
  fileImports :: "import_info list"
  fileFunctions :: "function_info list"
  fileClasses :: "class_info list"
  fileVariables :: "variable_info list"
  fileComments :: "comment_info list"
  ast :: "node option"
  parseError :: "string option"
  jsonStructure :: "jstruct option"

record parse_options =
  showAst :: bool

subsection \<open>\<open>parsePython\<close>\<close>

definition is_word_char :: "char \<Rightarrow> bool" where
  "is_word_char c =
     (c \<in> set ''abcdefghijklmnopqrstuvwxyzABCDEFGHIJKLMNOPQRSTUVWXYZ0123456789_'')"

text \<open>
  \<open>\s+(.+)$\<close> after the word \<open>import\<close>: white space, then the rest of the line,
  which must not be empty and must not hold a line terminator. When only white space
  follows, the last white-space character is the captured text.
\<close>

definition match_import_tail :: "string \<Rightarrow> string option" where
  "match_import_tail s =
     (let ws = takeWhile is_space s;
          rest = dropWhile is_space s
      in if ws = [] then None
         else if rest \<noteq> [] then
           (if list_ex is_line_terminator rest then None else Some rest)
         else if 2 \<le> length ws \<and> \<not> is_line_terminator (last ws) then Some [last ws]
         else None)"

text \<open>
  \<open>/^(?:from\s+(\S+)\s+)?import\s+(.+)$/\<close>: the two captured groups.
\<close>

definition match_import :: "string \<Rightarrow> (string option \<times> string) option" where
  "match_import line =
     (if startsWith line ''from'' then
        let s1 = drop 4 line;
            ws1 = takeWhile is_space s1;
            s2 = dropWhile is_space s1;
            moduleName = takeWhile (\<lambda>c. \<not> is_space c) s2;
            s3 = dropWhile (\<lambda>c. \<not> is_space c) s2;
            ws2 = takeWhile is_space s3;
            s4 = dropWhile is_space s3
        in if ws1 \<noteq> [] \<and> moduleName \<noteq> [] \<and> ws2 \<noteq> [] \<and> startsWith s4 ''import'' then
             (case match_import_tail (drop 6 s4) of
                Some names \<Rightarrow> Some (Some moduleName, names)
              | None \<Rightarrow> None)
           else None
      else if startsWith line ''import'' then
        (case match_import_tail (drop 6 line) of
           Some names \<Rightarrow> Some (None, names)
         | None \<Rightarrow> None)
      else None)"

text \<open>
  \<open>/^(\s*)def\s+(\w+)\s*\(([^)]*)\)/\<close>: the leading white space, the name and the
  text between the parentheses.
\<close>

definition match_func :: "string \<Rightarrow> (string \<times> string \<times> string) option" where
  "match_func line =
     (let indent = takeWhile is_space line;
          s1 = dropWhile is_space line
      in if \<not> startsWith s1 ''def'' then None
         else
           let s2 = drop 3 s1;
               ws = takeWhile is_space s2;
               s3 = dropWhile is_space s2;
               fname = takeWhile is_word_char s3;
               s4 = dropWhile is_space (dropWhile is_word_char s3)
           in if ws = [] \<or> fname = [] \<or> \<not> startsWith s4 ''('' then None
              else
                let s5 = drop 1 s4;
                    ps = takeWhile (\<lambda>c. c \<noteq> CHR '')'') s5;
                    s6 = dropWhile (\<lambda>c. c \<noteq> CHR '')'') s5
                in if s6 = [] then None else Some (indent, fname, ps))"

text \<open>
  \<open>/^class\s+(\w+)(?:\(([^)]*)\))?:/\<close>: the name and, when the line has them, the
  text between the parentheses.
\<close>

definition match_class :: "string \<Rightarrow> (string \<times> string option) option" where
  "match_class line =
     (if \<not> startsWith line ''class'' then None
      else
        let s1 = drop 5 line;
            ws = takeWhile is_space s1;
            s2 = dropWhile is_space s1;
            cname = takeWhile is_word_char s2;
            s3 = dropWhile is_word_char s2
        in if ws = [] \<or> cname = [] then None
           else if startsWith s3 ''('' then
             let s4 = drop 1 s3;
                 bases = takeWhile (\<lambda>c. c \<noteq> CHR '')'') s4;
                 s5 = dropWhile (\<lambda>c. c \<noteq> CHR '')'') s4
             in if startsWith s5 ''):'' then Some (cname, Some bases) else None
           else if startsWith s3 '':'' then Some (cname, None)
           else None)"

text \<open>\<open>/^([A-Z_][A-Z0-9_]*)\s*=/\<close>: the name.\<close>

definition match_var :: "string \<Rightarrow> string option" where
  "match_var line =
     (case line of
        [] \<Rightarrow> None
      | c # cs \<Rightarrow>
          if c \<in> set ''ABCDEFGHIJKLMNOPQRSTUVWXYZ_'' then
            let more = takeWhile (\<lambda>c. c \<in> set ''ABCDEFGHIJKLMNOPQRSTUVWXYZ0123456789_'') cs;
                s1 = dropWhile (\<lambda>c. c \<in> set ''ABCDEFGHIJKLMNOPQRSTUVWXYZ0123456789_'') cs
            in if startsWith (dropWhile is_space s1) ''='' then Some (c # more) else None
          else None)"

text \<open>\<open>text.split(',').map((p) => p.trim()).filter(Boolean)\<close>\<close>

definition split_params :: "string \<Rightarrow> string list" where
  "split_params text = filter (\<lambda>p. p \<noteq> []) (map trim (split_on CHR '','' text))"

text \<open>The body of the loop of \<open>parsePython\<close>, for the line with number \<open>lineNum\<close>.\<close>

definition python_line :: "nat \<times> string \<Rightarrow> file_record \<Rightarrow> file_record" where
  "python_line numbered result =
     (let lineNum = fst numbered; line = snd numbered
      in case match_import line of
           Some (moduleName, names) \<Rightarrow>
             result\<lparr>fileImports := fileImports result @
               [\<lparr>imp_source = (case moduleName of Some m \<Rightarrow> m | None \<Rightarrow> names),
                 imp_specifiers = None, imp_line = lineNum\<rparr>]\<rparr>
         | None \<Rightarrow>
            (case match_func line of
               Some (indent, fname, ps) \<Rightarrow>
                 result\<lparr>fileFunctions := fileFunctions result @
                   [\<lparr>fn_name = fname, fn_params = split_params ps, fn_async = None,
                     fn_generator = None, fn_arrow = None, fn_line = lineNum,
                     fn_exported = None, fn_isMethod = Some (length indent > 0)\<rparr>]\<rparr>
             | None \<Rightarrow>
                (case match_class line of
                   Some (cname, bases) \<Rightarrow>
                     result\<lparr>fileClasses := fileClasses result @
                       [\<lparr>cls_name = Some cname, cls_superClass = bases, cls_methods = None,
                         cls_line = lineNum, cls_exported = None\<rparr>]\<rparr>
                 | None \<Rightarrow>
                    (case match_var line of
                       Some vname \<Rightarrow>
                         result\<lparr>fileVariables := fileVariables result @
                           [\<lparr>var_name = vname, var_kind = None, var_line = lineNum\<rparr>]\<rparr>
                     | None \<Rightarrow> result))))"

definition parsePython :: "string \<Rightarrow> file_record \<Rightarrow> file_record" where
  "parsePython content result =
     (let lines = split_on CHR 0x0A content
      in fold python_line (zip [1 ..< length lines + 1] lines) result)"

subsection \<open>\<open>parseJSON\<close>\<close>

definition parseJSON :: "host \<Rightarrow> string \<Rightarrow> file_record \<Rightarrow> file_record" where
  "parseJSON h content result =
     (case JSON_parse h content of
        Inr json \<Rightarrow> result\<lparr>jsonStructure := Some (getJSONStructure json 0)\<rparr>
      | Inl message \<Rightarrow> result\<lparr>parseError := Some message\<rparr>)"

subsection \<open>\<open>parseJavaScript\<close>\<close>

text \<open>
  What can be thrown inside the \<open>try\<close> block of \<open>parseJavaScript\<close>. The parser
  raises every syntax error through one function, which appends the position
  \<open>(line:column)\<close> to the message; the engine throws a \<open>RangeError\<close> when the call
  stack is exhausted. \<open>error_message\<close> is \<open>err.message\<close>.
\<close>

datatype js_error = SyntaxError string nat nat | RangeError

definition error_message :: "js_error \<Rightarrow> string" where
  "error_message err =
     (case err of
        SyntaxError msg line column \<Rightarrow>
          msg @ '' ('' @ show_nat line @ '':'' @ show_nat column @ '')''
      | RangeError \<Rightarrow> ''Maximum call stack size exceeded'')"

text \<open>
  \<open>acorn.parse\<close> is a parameter. It reports each comment it reads to \<open>onComment\<close>
  as \<open>(block, text, start, end)\<close>, and then returns the tree or throws. A run is the
  list of comments reported and the outcome.
\<close>

type_synonym raw_comment = "bool \<times> string \<times> nat \<times> nat"

type_synonym acorn = "string \<Rightarrow> raw_comment list \<times> (js_error + node)"

text \<open>
  The walk over the tree and the two loops after it run inside the same \<open>try\<close>
  block. Whether a throw cuts them short (the call stack exhausted on a deep tree), and
  where, is a parameter too: \<open>Some (n, err)\<close> for a tree says that \<open>err\<close> is thrown
  when \<open>n\<close> of their updates of \<open>result\<close> have been made, \<open>None\<close> that they run to
  the end.
\<close>

type_synonym interrupt = "node \<Rightarrow> (nat \<times> js_error) option"

text \<open>The \<open>onComment\<close> callback.\<close>

definition onComment :: "raw_comment \<Rightarrow> file_record \<Rightarrow> file_record" where
  "onComment c result =
     (case c of (block, text, start, end) \<Rightarrow>
        result\<lparr>fileComments := fileComments result @
          [\<lparr>cm_type = (if block then ''block'' else ''line''), cm_value = trim text,
            cm_start = start, cm_end = end\<rparr>]\<rparr>)"

text \<open>
  An entry that a visitor pushes, tagged with the list it goes to, and the push itself.
\<close>

datatype fact =
    ImportFact import_info
  | ExportFact export_info
  | FunctionFact function_info
  | ClassFact class_info
  | VariableFact variable_info

fun push :: "fact \<Rightarrow> file_record \<Rightarrow> file_record" where
  "push (ImportFact x) result = result\<lparr>fileImports := fileImports result @ [x]\<rparr>"
| "push (ExportFact x) result = result\<lparr>fileExports := fileExports result @ [x]\<rparr>"
| "push (FunctionFact x) result = result\<lparr>fileFunctions := fileFunctions result @ [x]\<rparr>"
| "push (ClassFact x) result = result\<lparr>fileClasses := fileClasses result @ [x]\<rparr>"
| "push (VariableFact x) result = result\<lparr>fileVariables := fileVariables result @ [x]\<rparr>"

text \<open>\<open>x?.name || 'anonymous'\<close>\<close>

definition name_or_anonymous :: "string option \<Rightarrow> string" where
  "name_or_anonymous i = (case i of Some n \<Rightarrow> if n \<noteq> [] then n else ''anonymous'' | None \<Rightarrow> ''anonymous'')"

text \<open>\<open>p.name || p.left?.name || 'param'\<close>\<close>

fun param_name :: "param \<Rightarrow> string" where
  "param_name (PIdentifier n) = (if n \<noteq> [] then n else ''param'')"
| "param_name (PAssignment (PIdentifier n)) = (if n \<noteq> [] then n else ''param'')"
| "param_name (PAssignment p) = ''param''"
| "param_name POther = ''param''"

text \<open>The properties \<open>name\<close> and \<open>id?.name\<close> of a node.\<close>

fun node_name :: "node \<Rightarrow> string option" where
  "node_name (Identifier n) = Some n"
| "node_name n = None"

fun node_id_name :: "node \<Rightarrow> string option" where
  "node_id_name (FunctionDeclaration l i ps a g cs) = i"
| "node_id_name (ClassDeclaration l i sc ms cs) = i"
| "node_id_name (FunctionExpression i ps a cs) = i"
| "node_id_name (ClassExpression i cs) = i"
| "node_id_name n = None"

text \<open>The inner loop of the \<open>ExportNamedDeclaration\<close> visitor over a declaration.\<close>

fun declaration_exports :: "nat \<Rightarrow> node \<Rightarrow> export_info list" where
  "declaration_exports line (FunctionDeclaration l i ps a g cs) =
     [\<lparr>exp_type = ''function'', exp_name = i, exp_line = line\<rparr>]"
| "declaration_exports line (VariableDeclaration l k ds) =
     map (\<lambda>decl. case decl of VariableDeclarator i cs init \<Rightarrow>
            \<lparr>exp_type = ''variable'', exp_name = i, exp_line = line\<rparr>) ds"
| "declaration_exports line (ClassDeclaration l i sc ms cs) =
     [\<lparr>exp_type = ''class'', exp_name = i, exp_line = line\<rparr>]"
| "declaration_exports line n = []"

text \<open>The methods that the \<open>ClassDeclaration\<close> visitor collects.\<close>

fun member_methods :: "member \<Rightarrow> method_info list" where
  "member_methods (MethodDefinition k kind static) =
     [\<lparr>m_name = k, m_kind = kind, m_static = static\<rparr>]"
| "member_methods OtherMember = []"

text \<open>
  The body of the loop of the \<open>VariableDeclaration\<close> visitor: what it pushes for one
  declarator.
\<close>

fun visit_declarator :: "nat \<Rightarrow> string \<Rightarrow> declarator \<Rightarrow> fact list" where
  "visit_declarator line kind (VariableDeclarator None cs init) = []"
| "visit_declarator line kind (VariableDeclarator (Some x) cs (Some (ArrowFunctionExpression ps a bs))) =
     [FunctionFact
        \<lparr>fn_name = x, fn_params = map param_name ps, fn_async = Some a, fn_generator = None,
         fn_arrow = Some True, fn_line = line, fn_exported = None, fn_isMethod = None\<rparr>]"
| "visit_declarator line kind (VariableDeclarator (Some x) cs (Some (FunctionExpression i ps a bs))) =
     [FunctionFact
        \<lparr>fn_name = x, fn_params = map param_name ps, fn_async = Some a, fn_generator = None,
         fn_arrow = Some False, fn_line = line, fn_exported = None, fn_isMethod = None\<rparr>]"
| "visit_declarator line kind (VariableDeclarator (Some x) cs init) =
     [VariableFact \<lparr>var_name = x, var_kind = Some kind, var_line = line\<rparr>]"

text \<open>
  The visitors passed to \<open>walk.simple\<close>, by node type: the pushes that one call makes,
  in order.
\<close>

fun visit :: "node \<Rightarrow> fact list" where
  "visit (ImportDeclaration line src specifiers) =
     [ImportFact \<lparr>imp_source = src, imp_specifiers = Some specifiers, imp_line = line\<rparr>]"
| "visit (ExportNamedDeclaration line declaration specifiers) =
     map ExportFact
       ((case declaration of None \<Rightarrow> [] | Some d \<Rightarrow> declaration_exports line d)
        @ map (\<lambda>exported. \<lparr>exp_type = ''reexport'', exp_name = exported, exp_line = line\<rparr>)
            specifiers)"
| "visit (ExportDefaultDeclaration line declaration) =
     [ExportFact
        \<lparr>exp_type = ''default'',
         exp_name = Some (case node_name declaration of
                            Some n \<Rightarrow> if n \<noteq> [] then n
                                      else name_or_anonymous (node_id_name declaration)
                          | None \<Rightarrow> name_or_anonymous (node_id_name declaration)),
         exp_line = line\<rparr>]"
| "visit (FunctionDeclaration line i ps a g cs) =
     [FunctionFact
        \<lparr>fn_name = name_or_anonymous i, fn_params = map param_name ps, fn_async = Some a,
         fn_generator = Some g, fn_arrow = None, fn_line = line, fn_exported = Some False,
         fn_isMethod = None\<rparr>]"
| "visit (ClassDeclaration line i sc ms cs) =
     [ClassFact
        \<lparr>cls_name = i, cls_superClass = sc, cls_methods = Some (concat (map member_methods ms)),
         cls_line = line, cls_exported = None\<rparr>]"
| "visit (VariableDeclaration line kind ds) = concat (map (visit_declarator line kind) ds)"
| "visit n = []"

text \<open>
  The bodies of the two loops after the walk, for the function and the class at index
  \<open>i\<close>: \<open>exported\<close> becomes membership of the name in \<open>exportedNames\<close>.
\<close>

definition mark_function :: "string option list \<Rightarrow> nat \<Rightarrow> file_record \<Rightarrow> file_record" where
  "mark_function exportedNames i result =
     (let func = fileFunctions result ! i
      in result\<lparr>fileFunctions :=
           (fileFunctions result)
             [i := func\<lparr>fn_exported := Some (Some (fn_name func) \<in> set exportedNames)\<rparr>]\<rparr>)"

definition mark_class :: "string option list \<Rightarrow> nat \<Rightarrow> file_record \<Rightarrow> file_record" where
  "mark_class exportedNames i result =
     (let cls = fileClasses result ! i
      in result\<lparr>fileClasses :=
           (fileClasses result)
             [i := cls\<lparr>cls_exported := Some (cls_name cls \<in> set exportedNames)\<rparr>]\<rparr>)"

text \<open>
  The updates of the two loops, for the record that the walk has left: the names of all
  exports are collected first.
\<close>

definition mark_steps :: "file_record \<Rightarrow> (file_record \<Rightarrow> file_record) list" where
  "mark_steps result =
     (let exportedNames = map exp_name (fileExports result)
      in map (mark_function exportedNames) [0 ..< length (fileFunctions result)]
         @ map (mark_class exportedNames) [0 ..< length (fileClasses result)])"

definition run :: "('s \<Rightarrow> 's) list \<Rightarrow> 's \<Rightarrow> 's" where
  "run steps s = fold (\<lambda>step. step) steps s"

text \<open>
  \<open>parseJavaScript\<close>. The \<open>catch\<close> clause sets \<open>parseError\<close> on whatever \<open>result\<close>
  holds when the error is thrown: the comments reported so far when the parser throws,
  and also the entries pushed and the flags set so far when the walk or a loop throws.
\<close>

definition parseJavaScript ::
  "acorn \<Rightarrow> interrupt \<Rightarrow> string \<Rightarrow> file_record \<Rightarrow> parse_options \<Rightarrow> file_record" where
  "parseJavaScript acorn_parse interrupted content result options =
     (case acorn_parse content of (reported, outcome) \<Rightarrow>
        let result = fold onComment reported result
        in case outcome of
             Inl err \<Rightarrow> result\<lparr>parseError := Some (error_message err)\<rparr>
           | Inr tree \<Rightarrow>
               let result = (if showAst options then result\<lparr>ast := Some tree\<rparr> else result);
                   walk = map push (concat (map visit (postorder tree)));
                   steps = walk @ mark_steps (run walk result)
               in case interrupted tree of
                    None \<Rightarrow> run steps result
                  | Some (n, err) \<Rightarrow>
                      if n < length steps
                      then (run (take n steps) result)\<lparr>parseError := Some (error_message err)\<rparr>
                      else run steps result)"

subsection \<open>\<open>parseFile\<close>\<close>

text \<open>The \<open>result\<close> object that \<open>parseFile\<close> starts from.\<close>

definition initial_result :: "string \<Rightarrow> string \<Rightarrow> file_record" where
  "initial_result path content =
     \<lparr>filePath = path, fileName = basename path, extension = extname path,
      fileLines = length (split_on CHR 0x0A content), fileSize = length content,
      fileExports = [], fileImports = [], fileFunctions = [], fileClasses = [],
      fileVariables = [], fileComments = [], ast = None, parseError = None,
      jsonStructure = None\<rparr>"

definition parseFile ::
  "acorn \<Rightarrow> interrupt \<Rightarrow> host \<Rightarrow> string \<Rightarrow> string \<Rightarrow> parse_options \<Rightarrow> file_record" where
  "parseFile acorn_parse interrupted h path content options =
     (let ext = extname path;
          result = initial_result path content
      in if ext \<in> set [''.js'', ''.mjs'', ''.cjs''] then
           parseJavaScript acorn_parse interrupted content result options
         else if ext \<in> set [''.ts'', ''.tsx''] then
           parseJavaScript acorn_parse interrupted content result options
         else if ext \<in> set [''.jsx''] then
           parseJavaScript acorn_parse interrupted content result options
         else if ext = ''.py'' then parsePython content result
         else if ext = ''.json'' then parseJSON h content result
         else result)"

subsection \<open>Sample inputs\<close>

text \<open>A Python module with a method and a function of the same signature.\<close>

definition python_sample :: string where
  "python_sample =
     ''class A:'' @ [CHR 0x0A] @ ''    def f(a, b):'' @ [CHR 0x0A] @ ''def f(a, b):''"

text \<open>
  The runs of \<open>acorn.parse\<close> on four short texts: a block comment followed by an
  unbalanced brace, where the comment is reported before the error is thrown; a function
  that is exported by a separate export list; two declarations, one of them initialised
  with an arrow function; an exported function and an exported class. The walk over
  trees of this size is never cut short.
\<close>

definition unbalanced_source :: string where
  "unbalanced_source = ''/* c */ }''"

definition export_list_source :: string where
  "export_list_source = ''function f() {}'' @ [CHR 0x0A] @ ''export { f };''"

definition export_list_tree :: node where
  "export_list_tree =
     OtherNode
       [FunctionDeclaration 1 (Some ''f'') [] False False [Identifier ''f'', OtherNode []],
        ExportNamedDeclaration 2 None [Some ''f'']]"

definition arrow_source :: string where
  "arrow_source = ''const add = (a, b) => a + b;'' @ [CHR 0x0A] @ ''let n = 1;''"

definition arrow_tree :: node where
  "arrow_tree =
     OtherNode
       [VariableDeclaration 1 ''const''
          [VariableDeclarator (Some ''add'') [Identifier ''add'']
             (Some (ArrowFunctionExpression [PIdentifier ''a'', PIdentifier ''b''] False
                      [Identifier ''a'', Identifier ''b'',
                       OtherNode [Identifier ''a'', Identifier ''b'']]))],
        VariableDeclaration 2 ''let''
          [VariableDeclarator (Some ''n'') [Identifier ''n''] (Some (OtherNode []))]]"

definition exported_source :: string where
  "exported_source = ''export function g() {}'' @ [CHR 0x0A] @ ''export class K {}''"

definition exported_tree :: node where
  "exported_tree =
     OtherNode
       [ExportNamedDeclaration 1
          (Some (FunctionDeclaration 1 (Some ''g'') [] False False
                   [Identifier ''g'', OtherNode []])) [],
        ExportNamedDeclaration 2
          (Some (ClassDeclaration 2 (Some ''K'') None [] [Identifier ''K'', OtherNode []])) []]"

definition acorn_sample :: acorn where
  "acorn_sample content =
     (if content = unbalanced_source then
        ([(True, '' c '', 0, 7)], Inl (SyntaxError ''Unexpected token'' 1 8))
      else if content = export_list_source then ([], Inr export_list_tree)
      else if content = arrow_source then ([], Inr arrow_tree)
      else if content = exported_source then ([], Inr exported_tree)
      else ([], Inl (SyntaxError ''Unexpected token'' 1 0)))"

definition never_interrupted :: interrupt where
  "never_interrupted tree = None"

text \<open>
  A text whose tree is too deep for the call stack of the walker: an exported function,
  then a declaration whose arrow function returns a chain of 100000 property accesses
  \<open>a.b.b.b\<close> \<open>\<dots>\<close>. The parser reads such a chain in a loop and returns the tree;
  the walker descends into it by recursion and the engine throws when it has pushed the
  function and the export of the first line and nothing of the second.
\<close>

fun member_chain :: "nat \<Rightarrow> node" where
  "member_chain 0 = Identifier ''a''"
| "member_chain (Suc n) = OtherNode [member_chain n]"

definition deep_source :: string where
  "deep_source =
     ''export function f() {}'' @ [CHR 0x0A] @ ''const g = () => a''
       @ concat (replicate 100000 ''.b'') @ '';''"

definition deep_tree :: node where
  "deep_tree =
     OtherNode
       [ExportNamedDeclaration 1
          (Some (FunctionDeclaration 1 (Some ''f'') [] False False
                   [Identifier ''f'', OtherNode []])) [],
        VariableDeclaration 2 ''const''
          [VariableDeclarator (Some ''g'') [Identifier ''g'']
             (Some (ArrowFunctionExpression [] False [member_chain 100000]))]]"

definition acorn_deep :: acorn where
  "acorn_deep content =
     (if content = deep_source then ([], Inr deep_tree)
      else ([], Inl (SyntaxError ''Unexpected token'' 1 0)))"

definition stack_exhausted :: interrupt where
  "stack_exhausted tree = (if tree = deep_tree then Some (2, RangeError) else None)"

text \<open>The files that the full-syntax parser handles, by extension.\<close>

definition is_ecmascript :: "string \<Rightarrow> bool" where
  "is_ecmascript path = (extname path \<in> {''.js'', ''.mjs'', ''.cjs'', ''.ts'', ''.tsx'', ''.jsx''})"

subsection \<open>What one visitor call adds\<close>

text \<open>The entries among a list of pushes that go to each list.\<close>

fun fact_exports :: "fact \<Rightarrow> export_info list" where
  "fact_exports (ExportFact x) = [x]"
| "fact_exports f = []"

fun fact_functions :: "fact \<Rightarrow> function_info list" where
  "fact_functions (FunctionFact x) = [x]"
| "fact_functions f = []"

fun fact_classes :: "fact \<Rightarrow> class_info list" where
  "fact_classes (ClassFact x) = [x]"
| "fact_classes f = []"

fun fact_variables :: "fact \<Rightarrow> variable_info list" where
  "fact_variables (VariableFact x) = [x]"
| "fact_variables f = []"

fun fact_imports :: "fact \<Rightarrow> import_info list" where
  "fact_imports (ImportFact x) = [x]"
| "fact_imports f = []"

definition node_exports :: "node \<Rightarrow> export_info list" where
  "node_exports n = concat (map fact_exports (visit n))"

definition node_functions :: "node \<Rightarrow> function_info list" where
  "node_functions n = concat (map fact_functions (visit n))"

definition node_classes :: "node \<Rightarrow> class_info list" where
  "node_classes n = concat (map fact_classes (visit n))"

definition node_variables :: "node \<Rightarrow> variable_info list" where
  "node_variables n = concat (map fact_variables (visit n))"

subsection \<open>Variables and functions as the specification words them\<close>




section \<open>Properties of the categorizer\<close>

lemma categorize_file_spec:
  "categorize_file file cats =
     (case first_match_category file of
        Tests \<Rightarrow> cats\<lparr>tests := tests cats @ [file]\<rparr>
      | Code \<Rightarrow> cats\<lparr>code := code cats @ [file]\<rparr>
      | Config \<Rightarrow> cats\<lparr>config := config cats @ [file]\<rparr>
      | Docs \<Rightarrow> cats\<lparr>docs := docs cats @ [file]\<rparr>
      | Assets \<Rightarrow> cats\<lparr>assets := assets cats @ [file]\<rparr>
      | Other \<Rightarrow> cats\<lparr>other := other cats @ [file]\<rparr>)"
  by (simp add: categorize_file_def first_match_category_def Let_def list_ex_iff)

lemma category_list_step:
  "category_list (categorize_file file cats) c =
     category_list cats c @ (if first_match_category file = c then [file] else [])"
  by (cases c; cases "first_match_category file") (simp_all add: categorize_file_spec category_list_def)

lemma category_list_fold:
  "category_list (fold categorize_file files cats) c =
     category_list cats c @ filter (\<lambda>f. first_match_category f = c) files"
  by (induction files arbitrary: cats) (simp_all add: category_list_step)

lemma category_list_categorizeFiles:
  "category_list (categorizeFiles files) c = filter (\<lambda>f. first_match_category f = c) files"
  by (simp add: categorizeFiles_def category_list_fold)
     (simp add: category_list_def split: category.split)

lemma filter_categories_mset:
  "mset (filter (\<lambda>f. first_match_category f = Code) xs) + mset (filter (\<lambda>f. first_match_category f = Config) xs)
     + mset (filter (\<lambda>f. first_match_category f = Docs) xs) + mset (filter (\<lambda>f. first_match_category f = Tests) xs)
     + mset (filter (\<lambda>f. first_match_category f = Assets) xs) + mset (filter (\<lambda>f. first_match_category f = Other) xs)
   = mset xs"
proof (induction xs)
  case Nil
  show ?case by simp
next
  case (Cons x xs)
  then show ?case by (cases "first_match_category x") simp_all
qed

text \<open>
  C4 (as the code has it). Each of the six lists returned by \<open>categorizeFiles\<close> holds
  exactly the input paths that the first-match-wins precedence sends to that category:
  test marker in the path, code extension, a config filename occurring in the basename
  or the extension \<open>.json\<close>/\<open>.yaml\<close>/\<open>.yml\<close>, documentation extension, asset
  extension, other. A path with a test marker and the extension \<open>.json\<close> lands in
  \<open>tests\<close> and not in \<open>config\<close>.
\<close>

theorem categorizeFiles_precedence:
  "code (categorizeFiles files) = filter (\<lambda>f. first_match_category f = Code) files \<and>
   config (categorizeFiles files) = filter (\<lambda>f. first_match_category f = Config) files \<and>
   docs (categorizeFiles files) = filter (\<lambda>f. first_match_category f = Docs) files \<and>
   tests (categorizeFiles files) = filter (\<lambda>f. first_match_category f = Tests) files \<and>
   assets (categorizeFiles files) = filter (\<lambda>f. first_match_category f = Assets) files \<and>
   other (categorizeFiles files) = filter (\<lambda>f. first_match_category f = Other) files \<and>
   ((\<exists>p \<in> set testPatterns. str_includes file p) \<and> extname file = ''.json'' \<longrightarrow>
      tests (categorizeFiles [file]) = [file] \<and> config (categorizeFiles [file]) = [])"
proof -
  have l: "\<And>c. category_list (categorizeFiles files) c = filter (\<lambda>f. first_match_category f = c) files"
    by (rule category_list_categorizeFiles)
  have t: "\<exists>p \<in> set testPatterns. str_includes file p \<Longrightarrow> first_match_category file = Tests"
    by (simp add: first_match_category_def)
  have s: "\<And>c. category_list (categorizeFiles [file]) c = filter (\<lambda>f. first_match_category f = c) [file]"
    by (rule category_list_categorizeFiles)
  from l[of Code] l[of Config] l[of Docs] l[of Tests] l[of Assets] l[of Other]
       s[of Tests] s[of Config] t
  show ?thesis by (auto simp: category_list_def)
qed

theorem categorizeFiles_precedence_witness:
  "''.test.'' \<in> set testPatterns \<and> str_includes ''src/api.test.json'' ''.test.'' \<and>
   extname ''src/api.test.json'' = ''.json'' \<and>
   tests (categorizeFiles [''src/api.test.json'']) = [''src/api.test.json''] \<and>
   config (categorizeFiles [''src/api.test.json'']) = []"
proof -
  have h: "''.test.'' \<in> set testPatterns \<and> str_includes ''src/api.test.json'' ''.test.'' \<and>
           extname ''src/api.test.json'' = ''.json''"
    by (simp add: extname_def basename_def testPatterns_def)
  from categorizeFiles_precedence [of "[]" "''src/api.test.json''"] h show ?thesis by blast
qed

text \<open>
  C4 as stated fails: the basename \<open>.eslintrc.cjs\<close> is not a known config
  filename and the extension \<open>.cjs\<close> is in none of the lists, so the stated rules
  give \<open>other\<close>; the code files the path under \<open>config\<close>, because the basename
  contains \<open>.eslintrc\<close>.
\<close>

theorem categorizeFiles_precedence_counterexample:
  "spec_category ''/proj/.eslintrc.cjs'' = Other \<and>
   config (categorizeFiles [''/proj/.eslintrc.cjs'']) = [''/proj/.eslintrc.cjs''] \<and>
   other (categorizeFiles [''/proj/.eslintrc.cjs'']) = []"
  by code_simp

text \<open>
  C10. The six lists partition the input: taken together they hold every input path
  exactly as often as the input does, two different lists share no path, and each list
  is a subsequence of the input, so the input order is kept.
\<close>

theorem categorizeFiles_partition:
  "mset (code (categorizeFiles files) @ config (categorizeFiles files)
         @ docs (categorizeFiles files) @ tests (categorizeFiles files)
         @ assets (categorizeFiles files) @ other (categorizeFiles files)) = mset files \<and>
   (\<forall>c. subseq (category_list (categorizeFiles files) c) files) \<and>
   (\<forall>c c'. c \<noteq> c' \<longrightarrow>
      set (category_list (categorizeFiles files) c)
        \<inter> set (category_list (categorizeFiles files) c') = {})"
proof -
  let ?L = "\<lambda>c. category_list (categorizeFiles files) c"
  have l: "\<And>c. ?L c = filter (\<lambda>f. first_match_category f = c) files"
    by (rule category_list_categorizeFiles)
  have m: "mset (?L Code @ ?L Config @ ?L Docs @ ?L Tests @ ?L Assets @ ?L Other) = mset files"
    using filter_categories_mset [of files] by (simp add: l add.assoc)
  have s: "\<forall>c. subseq (?L c) files"
    by (simp add: l)
  have d: "\<forall>c c'. c \<noteq> c' \<longrightarrow> set (?L c) \<inter> set (?L c') = {}"
    by (auto simp: l)
  from m s d show ?thesis
    by (simp add: category_list_def)
qed

theorem categorizeFiles_partition_witness:
  "Code \<noteq> Docs \<and>
   set (category_list (categorizeFiles [''/p/a.js'', ''/p/README.md'', ''/p/b.js'']) Code)
     \<inter> set (category_list (categorizeFiles [''/p/a.js'', ''/p/README.md'', ''/p/b.js'']) Docs) = {} \<and>
   code (categorizeFiles [''/p/a.js'', ''/p/README.md'', ''/p/b.js'']) = [''/p/a.js'', ''/p/b.js''] \<and>
   docs (categorizeFiles [''/p/a.js'', ''/p/README.md'', ''/p/b.js'']) = [''/p/README.md'']"
proof -
  have c: "code (categorizeFiles [''/p/a.js'', ''/p/README.md'', ''/p/b.js'']) = [''/p/a.js'', ''/p/b.js'']"
    by code_simp
  have d: "docs (categorizeFiles [''/p/a.js'', ''/p/README.md'', ''/p/b.js'']) = [''/p/README.md'']"
    by code_simp
  from categorizeFiles_partition [of "[''/p/a.js'', ''/p/README.md'', ''/p/b.js'']"] c d
  show ?thesis by blast
qed

section \<open>Properties of the analyzer\<close>

lemma probe_package_json_returned:
  "snd (probe_package_json h projectPath d) = node_manifest_ok h projectPath"
  by (cases "readFile h (path_join projectPath ''package.json'')";
      simp add: probe_package_json_def node_manifest_ok_def Let_def split: option.splits sum.splits)
     (auto elim: get_prop.elims)

lemma probe_package_json_manager:
  "node_manifest_ok h projectPath \<Longrightarrow> manager (fst (probe_package_json h projectPath d)) = Some ''npm''"
  by (auto simp: probe_package_json_def node_manifest_ok_def Let_def split: option.splits sum.splits)

lemma analyzeDependencies_manager:
  "node_manifest_ok h projectPath \<or> requirements_ok h projectPath \<or> pyproject_ok h projectPath \<Longrightarrow>
   manager (analyzeDependencies h projectPath) = spec_manager h projectPath"
  using probe_package_json_returned [of h projectPath "\<lparr>manager = None, dependencies = JObj [], devDependencies = JObj []\<rparr>"]
    probe_package_json_manager [of h projectPath "\<lparr>manager = None, dependencies = JObj [], devDependencies = JObj []\<rparr>"]
  by (auto simp: analyzeDependencies_def spec_manager_def Let_def probe_requirements_def
      probe_pyproject_def requirements_ok_def pyproject_ok_def split: prod.splits option.splits)

lemma analyzeDependencies_requirements:
  assumes "readFile h (path_join projectPath ''package.json'') = None"
      and "readFile h (path_join projectPath ''requirements.txt'') = Some content"
  shows "analyzeDependencies h projectPath =
           \<lparr>manager = Some ''pip'', dependencies = parseRequirements content, devDependencies = JObj []\<rparr>"
  using assms
  by (simp add: analyzeDependencies_def probe_package_json_def probe_requirements_def Let_def)

lemma unique_values_set_aux:
  "(\<forall>x \<in> set xs. \<exists>s. x = JStr s) \<Longrightarrow> (\<forall>x \<in> set acc. \<exists>s. x = JStr s) \<Longrightarrow>
     set (fold set_add xs acc) = set acc \<union> set xs"
proof (induction xs arbitrary: acc)
  case Nil
  then show ?case by simp
next
  case (Cons x xs)
  from Cons.prems obtain s where x: "x = JStr s" by auto
  have "list_ex (same_value x) acc = (x \<in> set acc)"
    by (auto simp: x list_ex_iff)
  moreover have "\<forall>y \<in> set (set_add x acc). \<exists>s. y = JStr s"
    using Cons.prems by (auto simp: set_add_def)
  ultimately show ?case
    using Cons.IH [of "set_add x acc"] Cons.prems by (auto simp: set_add_def)
qed

lemma findEntryPoints_common:
  assumes "readFile h (path_join projectPath ''package.json'') = None"
  shows "set (findEntryPoints h projectPath files) =
           JStr ` {e \<in> set commonEntries. path_join projectPath e \<in> set files}"
proof -
  have "manifest_entries h projectPath = []"
    using assms by (simp add: manifest_entries_def)
  then show ?thesis
    by (simp add: findEntryPoints_def unique_values_def unique_values_set_aux)
qed


text \<open>
  When no probe succeeds the manager stays unset, unless the Node manifest holds the
  JSON value \<open>null\<close>: the tag is assigned before the failing property access.
\<close>

lemma analyzeDependencies_no_manifest:
  "\<not> node_manifest_ok h projectPath \<Longrightarrow> \<not> requirements_ok h projectPath \<Longrightarrow>
   \<not> pyproject_ok h projectPath \<Longrightarrow>
   manager (analyzeDependencies h projectPath) =
     (case readFile h (path_join projectPath ''package.json'') of
        None \<Rightarrow> None
      | Some text \<Rightarrow> (case JSON_parse h text of Inr JNull \<Rightarrow> Some ''npm'' | _ \<Rightarrow> None))"
  by (auto simp: analyzeDependencies_def probe_package_json_def probe_requirements_def
      probe_pyproject_def node_manifest_ok_def requirements_ok_def pyproject_ok_def Let_def
      split: option.splits sum.splits json.splits)

text \<open>
  C5. In a project without a Node manifest whose \<open>requirements.txt\<close> lists
  \<open>flask==2.0\<close> and whose file list holds \<open>index.js\<close> of the root, the entry
  points contain \<open>index.js\<close>, the manager is \<open>pip\<close> and the dependencies are
  \<open>{flask: ==2.0}\<close>. Whenever one of the three probes succeeds, the manager is the
  tag of the first successful one in the order Node manifest, requirements list,
  Python project manifest.
\<close>

theorem analyzeProject_pip_project:
  "(readFile h (path_join projectPath ''package.json'') = None \<and>
    readFile h (path_join projectPath ''requirements.txt'') = Some content \<and>
    content \<in> {''flask==2.0'', ''flask==2.0'' @ [CHR 0x0A]} \<and>
    path_join projectPath ''index.js'' \<in> set files \<longrightarrow>
      JStr ''index.js'' \<in> set (entryPoints (analyzeProject h projectPath files)) \<and>
      manager (dependencyInfo (analyzeProject h projectPath files)) = Some ''pip'' \<and>
      dependencies (dependencyInfo (analyzeProject h projectPath files))
        = JObj [(''flask'', JStr ''==2.0'')]) \<and>
   (node_manifest_ok h projectPath \<or> requirements_ok h projectPath \<or> pyproject_ok h projectPath \<longrightarrow>
      manager (dependencyInfo (analyzeProject h projectPath files)) = spec_manager h projectPath)"
proof -
  have pr: "parseRequirements ''flask==2.0'' = JObj [(''flask'', JStr ''==2.0'')]"
    by code_simp
  have pr': "parseRequirements (''flask==2.0'' @ [CHR 0x0A]) = JObj [(''flask'', JStr ''==2.0'')]"
    by code_simp
  have ce: "''index.js'' \<in> set commonEntries"
    by (simp add: commonEntries_def)
  have a: "readFile h (path_join projectPath ''package.json'') = None \<Longrightarrow>
           readFile h (path_join projectPath ''requirements.txt'') = Some content \<Longrightarrow>
           content \<in> {''flask==2.0'', ''flask==2.0'' @ [CHR 0x0A]} \<Longrightarrow>
           path_join projectPath ''index.js'' \<in> set files \<Longrightarrow>
           JStr ''index.js'' \<in> set (findEntryPoints h projectPath files) \<and>
           analyzeDependencies h projectPath =
             \<lparr>manager = Some ''pip'', dependencies = JObj [(''flask'', JStr ''==2.0'')],
              devDependencies = JObj []\<rparr>"
    using pr pr' ce
    by (auto simp: findEntryPoints_common analyzeDependencies_requirements)
  have b: "node_manifest_ok h projectPath \<or> requirements_ok h projectPath \<or> pyproject_ok h projectPath \<Longrightarrow>
           manager (analyzeDependencies h projectPath) = spec_manager h projectPath"
    by (rule analyzeDependencies_manager)
  from a b show ?thesis
    by (simp add: analyzeProject_def)
qed

theorem analyzeProject_pip_project_witness:
  "readFile host1 (path_join ''/proj'' ''package.json'') = None \<and>
   readFile host1 (path_join ''/proj'' ''requirements.txt'') = Some ''flask==2.0'' \<and>
   path_join ''/proj'' ''index.js'' \<in> set [''/proj/index.js'', ''/proj/requirements.txt''] \<and>
   requirements_ok host1 ''/proj'' \<and>
   JStr ''index.js'' \<in> set (entryPoints (analyzeProject host1 ''/proj'' [''/proj/index.js'', ''/proj/requirements.txt''])) \<and>
   manager (dependencyInfo (analyzeProject host1 ''/proj'' [''/proj/index.js'', ''/proj/requirements.txt''])) = Some ''pip'' \<and>
   dependencies (dependencyInfo (analyzeProject host1 ''/proj'' [''/proj/index.js'', ''/proj/requirements.txt'']))
      = JObj [(''flask'', JStr ''==2.0'')] \<and>
   spec_manager host1 ''/proj'' = Some ''pip'' \<and>
   node_manifest_ok host2 ''/app'' \<and>
   manager (dependencyInfo (analyzeProject host2 ''/app'' [])) = Some ''npm''"
proof -
  have j: "path_join ''/proj'' ''package.json'' = ''/proj/package.json''"
          "path_join ''/proj'' ''requirements.txt'' = ''/proj/requirements.txt''"
          "path_join ''/proj'' ''index.js'' = ''/proj/index.js''"
          "path_join ''/app'' ''package.json'' = ''/app/package.json''"
    by code_simp+
  have h1: "readFile host1 (path_join ''/proj'' ''package.json'') = None"
    and h2: "readFile host1 (path_join ''/proj'' ''requirements.txt'') = Some ''flask==2.0''"
    and h3: "path_join ''/proj'' ''index.js'' \<in> set [''/proj/index.js'', ''/proj/requirements.txt'']"
    by (simp_all add: j host1_def)
  have h4: "requirements_ok host1 ''/proj''"
    by (simp add: requirements_ok_def h2)
  have h5: "spec_manager host1 ''/proj'' = Some ''pip''"
    by (simp add: spec_manager_def node_manifest_ok_def h1 h4)
  have h6: "node_manifest_ok host2 ''/app''"
    by (simp add: node_manifest_ok_def j host2_def json_sample_def)
  have h7: "spec_manager host2 ''/app'' = Some ''npm''"
    by (simp add: spec_manager_def h6)
  have h0: "''flask==2.0'' \<in> {''flask==2.0'', ''flask==2.0'' @ [CHR 0x0A]}"
    by simp
  from analyzeProject_pip_project [of host1 "''/proj''" "''flask==2.0''" "[''/proj/index.js'', ''/proj/requirements.txt'']"]
       analyzeProject_pip_project [of host2 "''/app''" "[]" "[]"]
       h0 h1 h2 h3 h4 h5 h6 h7
  show ?thesis by metis
qed

section \<open>Properties of the file statistics\<close>

lemma dirname_absolute: "startsWith file ''/'' \<Longrightarrow> startsWith (dirname file) ''/''"
  by (cases "file") (auto simp: dirname_def Let_def)

lemma directory_key_absolute: "startsWith file ''/'' \<Longrightarrow> directory_key file = ''.''"
proof -
  assume "startsWith file ''/''"
  then have "startsWith (dirname file) ''/''" by (rule dirname_absolute)
  then obtain r where "dirname file = CHR ''/'' # r"
    by (cases "dirname file") auto
  then show ?thesis by (simp add: directory_key_def)
qed

lemma byDirectory_stats_step:
  "byDirectory (stats_step st f s) = bump (byDirectory s) (directory_key f)"
  by (simp add: stats_step_def)

lemma byDirectory_fold_absolute:
  "\<forall>f \<in> set files. startsWith f ''/'' \<Longrightarrow>
   byDirectory (fold (stats_step st) files s) =
     (if files = [] then byDirectory s
      else (byDirectory s)(''.'' \<mapsto> (case byDirectory s ''.'' of None \<Rightarrow> 0 | Some n \<Rightarrow> n) + length files))"
proof (induction files arbitrary: s)
  case Nil
  then show ?case by simp
next
  case (Cons f files)
  have k: "directory_key f = ''.''"
    using Cons.prems by (simp add: directory_key_absolute)
  have "byDirectory (fold (stats_step st) (f # files) s)
          = byDirectory (fold (stats_step st) files (stats_step st f s))"
    by simp
  also have "\<dots> = (if files = [] then byDirectory (stats_step st f s)
      else (byDirectory (stats_step st f s))(''.'' \<mapsto>
         (case byDirectory (stats_step st f s) ''.'' of None \<Rightarrow> 0 | Some n \<Rightarrow> n) + length files))"
    using Cons.prems by (intro Cons.IH) simp
  also have "\<dots> = (byDirectory s)(''.'' \<mapsto>
         (case byDirectory s ''.'' of None \<Rightarrow> 0 | Some n \<Rightarrow> n) + length (f # files))"
    by (simp add: byDirectory_stats_step k bump_def)
  finally show ?case by simp
qed

text \<open>
  Every path that starts at the file-system root is counted under the key \<open>.\<close>,
  whatever directory of the project it lies in.
\<close>

lemma byDirectory_absolute:
  "\<forall>f \<in> set files. startsWith f ''/'' \<Longrightarrow> files \<noteq> [] \<Longrightarrow>
   byDirectory (getFileStats st files) = [''.'' \<mapsto> length files]"
  by (simp add: getFileStats_def byDirectory_fold_absolute)

text \<open>
  C8. For the absolute paths that the scanner returns, the directory histogram has the
  single key \<open>.\<close>: the files \<open>src/a.js\<close>, \<open>lib/b.js\<close> and \<open>index.js\<close> of
  the project \<open>/proj\<close> are all counted under it, none under \<open>src\<close> or \<open>lib\<close>.
\<close>

theorem getFileStats_absolute_paths:
  "byDirectory (getFileStats st [''/proj/src/a.js'', ''/proj/lib/b.js'', ''/proj/index.js''])
     = [''.'' \<mapsto> 3]"
  by (simp add: byDirectory_absolute eval_nat_numeral)

section \<open>Properties of the JSON structure\<close>

lemma getJSONStructure_deep: "3 < depth \<Longrightarrow> getJSONStructure obj depth = SString ''...''"
  by (simp add: getJSONStructure.simps)

lemma getJSONStructure_prune:
  "getJSONStructure (prune depth obj) depth = getJSONStructure obj depth"
proof (induction obj depth rule: getJSONStructure.induct)
  case (1 obj depth)
  show ?case
  proof (cases "3 < depth")
    case True
    then show ?thesis by (simp add: getJSONStructure_deep)
  next
    case False
    show ?thesis
    proof (cases obj)
      case (JArr xs)
      show ?thesis
      proof (cases xs)
        case Nil
        with JArr False show ?thesis
          by (simp add: getJSONStructure.simps [of "JArr []"] prune.simps [of _ "JArr []"])
      next
        case (Cons x xs')
        have "getJSONStructure (prune (depth + 1) x) (depth + 1) = getJSONStructure x (depth + 1)"
          using "1.IH"(1) [OF False JArr Cons] .
        with JArr False Cons show ?thesis
          by (simp add: getJSONStructure.simps [of "JArr _" depth] prune.simps [of depth "JArr _"])
      qed
    next
      case (JObj kvs)
      let ?f = "\<lambda>kv s. set_prop (fst kv) (getJSONStructure (snd kv) (depth + 1)) s"
      let ?p = "\<lambda>kv. (fst kv, prune (depth + 1) (snd kv))"
      have "fold ?f (take 10 (map ?p kvs)) [] = fold (?f \<circ> ?p) (take 10 kvs) []"
        by (simp add: take_map fold_map)
      also have "\<dots> = fold ?f (take 10 kvs) []"
      proof (rule fold_cong)
        fix kv assume "kv \<in> set (take 10 kvs)"
        then have "getJSONStructure (prune (depth + 1) (snd kv)) (depth + 1)
                     = getJSONStructure (snd kv) (depth + 1)"
          using "1.IH"(2) [OF False JObj] by simp
        then show "(?f \<circ> ?p) kv = ?f kv" by (simp add: fun_eq_iff)
      qed simp_all
      finally show ?thesis
        using JObj False
        by (simp add: getJSONStructure.simps [of "JObj _" depth] prune.simps [of depth "JObj _"] Let_def)
    qed (use False in \<open>simp_all add: getJSONStructure.simps [of _ depth] prune.simps [of depth]\<close>)
  qed
qed


text \<open>
  C3. A value met at depth 4 or deeper is described by the placeholder \<open>...\<close>
  whatever it is; the descriptor of a value is the descriptor of the same value with
  everything below depth 3 cut away; the objects nested five and six levels deep have
  the same descriptor.
\<close>

theorem getJSONStructure_depth_bound:
  "(3 < depth \<longrightarrow> getJSONStructure obj depth = SString ''...'') \<and>
   getJSONStructure (prune 0 obj) 0 = getJSONStructure obj 0 \<and>
   getJSONStructure (nested 5) 0 = getJSONStructure (nested 6) 0"
proof -
  have "prune 0 (nested 5) = prune 0 (nested 6)"
    by code_simp
  then have "getJSONStructure (nested 5) 0 = getJSONStructure (nested 6) 0"
    using getJSONStructure_prune [of 0 "nested 5"] getJSONStructure_prune [of 0 "nested 6"]
    by simp
  then show ?thesis
    by (simp add: getJSONStructure_deep getJSONStructure_prune)
qed

theorem getJSONStructure_depth_bound_witness:
  "(3::nat) < 4 \<and>
   getJSONStructure (JObj [(''name'', JStr ''x'')]) 4 = SString ''...'' \<and>
   getJSONStructure (JArr [JNum 1, JNum 2]) 4 = SString ''...'' \<and>
   getJSONStructure (nested 5) 0 =
     SObject [(''a'', SObject [(''a'', SObject [(''a'', SObject [(''a'', SString ''...'')])])])] \<and>
   getJSONStructure (nested 6) 0 =
     SObject [(''a'', SObject [(''a'', SObject [(''a'', SObject [(''a'', SString ''...'')])])])]"
proof -
  have n5: "getJSONStructure (nested 5) 0 =
     SObject [(''a'', SObject [(''a'', SObject [(''a'', SObject [(''a'', SString ''...'')])])])]"
    by code_simp
  from getJSONStructure_depth_bound [of 4 "JObj [(''name'', JStr ''x'')]"]
       getJSONStructure_depth_bound [of 4 "JArr [JNum 1, JNum 2]"] n5
  show ?thesis by simp
qed

section \<open>Properties of the Python parser\<close>

lemma takeWhile_run:
  "\<forall>c \<in> set xs. P c \<Longrightarrow> ys = [] \<or> \<not> P (hd ys) \<Longrightarrow> takeWhile P (xs @ ys) = xs"
  by (cases ys) (simp_all add: takeWhile_append2)

lemma dropWhile_run:
  "\<forall>c \<in> set xs. P c \<Longrightarrow> ys = [] \<or> \<not> P (hd ys) \<Longrightarrow> dropWhile P (xs @ ys) = ys"
  by (cases ys) (simp_all add: dropWhile_append2)

lemma startsWith_append: "startsWith (p @ s) p"
  by (induction p) simp_all

lemma word_char_not_space: "is_word_char c \<Longrightarrow> \<not> is_space c"
  by (auto simp: is_word_char_def is_space_def)

lemma match_import_indented:
  assumes "\<forall>c \<in> set indent. is_space c" and "\<not> startsWith s ''from''" and "\<not> startsWith s ''import''"
  shows "match_import (indent @ s) = None"
proof (cases indent)
  case Nil
  with assms show ?thesis by (simp add: match_import_def)
next
  case (Cons c cs)
  with assms have "is_space c" by simp
  then have "c \<noteq> CHR ''f''" "c \<noteq> CHR ''i''"
    by (auto simp: is_space_def)
  with Cons show ?thesis by (simp add: match_import_def)
qed

lemma match_func_shape:
  assumes indent: "\<forall>c \<in> set indent. is_space c"
      and ws1: "ws1 \<noteq> []" "\<forall>c \<in> set ws1. is_space c"
      and fname: "fname \<noteq> []" "\<forall>c \<in> set fname. is_word_char c"
      and ws2: "\<forall>c \<in> set ws2. is_space c"
      and ps: "CHR '')'' \<notin> set ps"
  shows "match_func (indent @ ''def'' @ ws1 @ fname @ ws2 @ ''('' @ ps @ '')'' @ rest)
           = Some (indent, fname, ps)"
proof -
  let ?t4 = "''('' @ ps @ '')'' @ rest"
  let ?t3 = "ws2 @ ?t4"
  let ?t2 = "fname @ ?t3"
  let ?t1 = "ws1 @ ?t2"
  let ?line = "indent @ ''def'' @ ?t1"
  have a: "takeWhile is_space ?line = indent" "dropWhile is_space ?line = ''def'' @ ?t1"
    by (rule takeWhile_run dropWhile_run; use indent in \<open>simp add: is_space_def\<close>)+
  have b0: "\<not> is_space (hd ?t2)"
    using fname by (cases fname) (simp_all add: word_char_not_space)
  have b: "takeWhile is_space ?t1 = ws1" "dropWhile is_space ?t1 = ?t2"
    by (rule takeWhile_run dropWhile_run; use ws1 b0 in blast)+
  have c0: "\<not> is_word_char (hd ?t3)"
  proof (cases ws2)
    case Nil
    then show ?thesis by (simp add: is_word_char_def)
  next
    case (Cons c cs)
    with ws2 have "is_space c" by simp
    with Cons show ?thesis using word_char_not_space [of c] by auto
  qed
  have c: "takeWhile is_word_char ?t2 = fname" "dropWhile is_word_char ?t2 = ?t3"
    by (rule takeWhile_run dropWhile_run; use fname c0 in blast)+
  have d: "dropWhile is_space ?t3 = ?t4"
    by (rule dropWhile_run; use ws2 in \<open>simp add: is_space_def\<close>)
  have e: "takeWhile (\<lambda>c. c \<noteq> CHR '')'') (ps @ '')'' @ rest) = ps"
          "dropWhile (\<lambda>c. c \<noteq> CHR '')'') (ps @ '')'' @ rest) = '')'' @ rest"
    by (rule takeWhile_run dropWhile_run; use ps in auto)+
  have "match_func ?line =
     (let s2 = drop 3 (''def'' @ ?t1) in 
       let ws = takeWhile is_space s2;
               s3 = dropWhile is_space s2;
               fname' = takeWhile is_word_char s3;
               s4 = dropWhile is_space (dropWhile is_word_char s3)
           in if ws = [] \<or> fname' = [] \<or> \<not> startsWith s4 ''('' then None
              else
                let s5 = drop 1 s4;
                    ps = takeWhile (\<lambda>c. c \<noteq> CHR '')'') s5;
                    s6 = dropWhile (\<lambda>c. c \<noteq> CHR '')'') s5
                in if s6 = [] then None else Some (indent, fname', ps))"
    unfolding match_func_def a by (simp add: Let_def)
  also have "drop 3 (''def'' @ ?t1) = ?t1" by simp
  finally show ?thesis
    unfolding Let_def b c d using ws1(1) fname(1) e by simp
qed

lemma python_line_functions_mono:
  "set (fileFunctions r) \<subseteq> set (fileFunctions (python_line nl r))"
  by (auto simp: python_line_def Let_def split: option.splits prod.splits)

lemma python_line_classes_mono:
  "set (fileClasses r) \<subseteq> set (fileClasses (python_line nl r))"
  by (auto simp: python_line_def Let_def split: option.splits prod.splits)

lemma fold_python_line_functions_mono:
  "set (fileFunctions r) \<subseteq> set (fileFunctions (fold python_line nls r))"
proof (induction nls arbitrary: r)
  case Nil
  show ?case by simp
next
  case (Cons nl nls)
  show ?case
    using python_line_functions_mono [of r nl] Cons [of "python_line nl r"] by auto
qed

lemma fold_python_line_classes_mono:
  "set (fileClasses r) \<subseteq> set (fileClasses (fold python_line nls r))"
proof (induction nls arbitrary: r)
  case Nil
  show ?case by simp
next
  case (Cons nl nls)
  show ?case
    using python_line_classes_mono [of r nl] Cons [of "python_line nl r"] by auto
qed

lemma fold_python_line_function:
  assumes "nl \<in> set nls" and "\<And>r. f \<in> set (fileFunctions (python_line nl r))"
  shows "f \<in> set (fileFunctions (fold python_line nls r))"
  using assms(1)
proof (induction nls arbitrary: r)
  case Nil
  then show ?case by simp
next
  case (Cons a nls)
  show ?case
  proof (cases "a = nl")
    case True
    then show ?thesis
      using assms(2) [of r] fold_python_line_functions_mono [of "python_line nl r" nls] by auto
  next
    case False
    with Cons show ?thesis by auto
  qed
qed

lemma fold_python_line_class:
  assumes "nl \<in> set nls" and "\<And>r. c \<in> set (fileClasses (python_line nl r))"
  shows "c \<in> set (fileClasses (fold python_line nls r))"
  using assms(1)
proof (induction nls arbitrary: r)
  case Nil
  then show ?case by simp
next
  case (Cons a nls)
  show ?case
  proof (cases "a = nl")
    case True
    then show ?thesis
      using assms(2) [of r] fold_python_line_classes_mono [of "python_line nl r" nls] by auto
  next
    case False
    with Cons show ?thesis by auto
  qed
qed

lemma numbered_line:
  assumes "i < length ls"
  shows "(i + 1, ls ! i) \<in> set (zip [1 ..< length ls + 1] ls)"
proof -
  have "[1 ..< length ls + 1] ! i = 1 + i"
    using assms by (intro nth_upt) simp
  then have "zip [1 ..< length ls + 1] ls ! i = (i + 1, ls ! i)"
    using assms by (simp del: upt_Suc)
  moreover have "i < length (zip [1 ..< length ls + 1] ls)"
    using assms by simp
  ultimately show ?thesis
    by (metis nth_mem)
qed

lemma python_line_function:
  "match_import line = None \<Longrightarrow> match_func line = Some (indent, fname, ps) \<Longrightarrow>
   fileFunctions (python_line (n, line) r) = fileFunctions r @
     [\<lparr>fn_name = fname, fn_params = filter (\<lambda>p. p \<noteq> []) (map trim (split_on CHR '','' ps)),
       fn_async = None, fn_generator = None, fn_arrow = None, fn_line = n,
       fn_exported = None, fn_isMethod = Some (indent \<noteq> [])\<rparr>]"
  by (simp add: python_line_def split_params_def)

lemma python_line_class:
  "match_import line = None \<Longrightarrow> match_func line = None \<Longrightarrow>
   match_class line = Some (cname, bases) \<Longrightarrow>
   fileClasses (python_line (n, line) r) = fileClasses r @
     [\<lparr>cls_name = Some cname, cls_superClass = bases, cls_methods = None,
       cls_line = n, cls_exported = None\<rparr>]"
  by (simp add: python_line_def)

text \<open>
  C6. A line of a Python file that has the form of a function definition (white space,
  \<open>def\<close>, the name, the parenthesised parameter text) yields a function record
  with that name, with the parameter text split at commas, each piece trimmed and the
  empty pieces dropped, and with \<open>isMethod\<close> true exactly when the leading white
  space is not empty; the record carries the number of the line. For the line
  \<open>def f(a, b):\<close> the name is \<open>f\<close> and the parameters are \<open>a\<close> and \<open>b\<close>,
  also when the white space is a no-break space.
\<close>

theorem parsePython_function_line:
  assumes "i < length (split_on CHR 0x0A content)"
      and "split_on CHR 0x0A content ! i
             = indent @ ''def'' @ gap @ fname @ pad @ ''('' @ ps @ '')'' @ rest"
      and "\<forall>c \<in> set indent. is_space c"
      and "gap \<noteq> []" and "\<forall>c \<in> set gap. is_space c"
      and "fname \<noteq> []" and "\<forall>c \<in> set fname. is_word_char c"
      and "\<forall>c \<in> set pad. is_space c"
      and "CHR '')'' \<notin> set ps"
  shows "\<lparr>fn_name = fname,
          fn_params = filter (\<lambda>p. p \<noteq> []) (map trim (split_on CHR '','' ps)),
          fn_async = None, fn_generator = None, fn_arrow = None, fn_line = i + 1,
          fn_exported = None, fn_isMethod = Some (indent \<noteq> [])\<rparr>
         \<in> set (fileFunctions (parsePython content result))"
proof -
  let ?line = "indent @ ''def'' @ gap @ fname @ pad @ ''('' @ ps @ '')'' @ rest"
  have imp: "match_import ?line = None"
    using assms(3) by (rule match_import_indented) simp_all
  have fn: "match_func ?line = Some (indent, fname, ps)"
    using assms(3-9) by (rule match_func_shape)
  have mem: "(i + 1, ?line) \<in> set (zip [1 ..< length (split_on CHR 0x0A content) + 1]
                                        (split_on CHR 0x0A content))"
    using numbered_line [OF assms(1)] assms(2) by simp
  show ?thesis
    unfolding parsePython_def Let_def
    by (rule fold_python_line_function [OF mem]) (simp only: python_line_function [OF imp fn], simp)
qed

theorem parsePython_function_line_witness:
  "\<lparr>fn_name = ''f'', fn_params = [''a'', ''b''], fn_async = None, fn_generator = None,
     fn_arrow = None, fn_line = 3, fn_exported = None, fn_isMethod = Some False\<rparr>
     \<in> set (fileFunctions (parsePython python_sample (initial_result ''m.py'' python_sample))) \<and>
   \<lparr>fn_name = ''f'', fn_params = [''a'', ''b''], fn_async = None, fn_generator = None,
     fn_arrow = None, fn_line = 2, fn_exported = None, fn_isMethod = Some True\<rparr>
     \<in> set (fileFunctions (parsePython python_sample (initial_result ''m.py'' python_sample))) \<and>
   \<lparr>fn_name = ''f'', fn_params = [''a'', ''b''], fn_async = None, fn_generator = None,
     fn_arrow = None, fn_line = 1, fn_exported = None, fn_isMethod = Some True\<rparr>
     \<in> set (fileFunctions (parsePython ([CHR 0xA0] @ ''def f(a,'' @ [CHR 0xA0] @ ''b):'')
                (initial_result ''m.py'' ([CHR 0xA0] @ ''def f(a,'' @ [CHR 0xA0] @ ''b):''))))"
proof -
  have l: "split_on CHR 0x0A python_sample = [''class A:'', ''    def f(a, b):'', ''def f(a, b):'']"
    by (simp add: python_sample_def)
  have p: "filter (\<lambda>p. p \<noteq> []) (map trim (split_on CHR '','' ''a, b'')) = [''a'', ''b'']"
    by (simp add: trim_def is_space_def)
  have w: "\<forall>c \<in> set ''f''. is_word_char c" "\<forall>c \<in> set '' ''. is_space c" "\<forall>c \<in> set ''    ''. is_space c"
    by (simp_all add: is_word_char_def is_space_def)
  have a: "\<lparr>fn_name = ''f'', fn_params = filter (\<lambda>p. p \<noteq> []) (map trim (split_on CHR '','' ''a, b'')),
     fn_async = None, fn_generator = None,
     fn_arrow = None, fn_line = 2 + 1, fn_exported = None, fn_isMethod = Some ([] \<noteq> ([]::string))\<rparr>
     \<in> set (fileFunctions (parsePython python_sample (initial_result ''m.py'' python_sample)))"
    by (rule parsePython_function_line [where indent = "[]" and gap = "'' ''" and pad = "[]" and rest = "'':''"])
       (simp_all add: l w)
  have b: "\<lparr>fn_name = ''f'', fn_params = filter (\<lambda>p. p \<noteq> []) (map trim (split_on CHR '','' ''a, b'')),
     fn_async = None, fn_generator = None,
     fn_arrow = None, fn_line = 1 + 1, fn_exported = None, fn_isMethod = Some (''    '' \<noteq> [])\<rparr>
     \<in> set (fileFunctions (parsePython python_sample (initial_result ''m.py'' python_sample)))"
    by (rule parsePython_function_line [where indent = "''    ''" and gap = "'' ''" and pad = "[]" and rest = "'':''"])
       (simp_all add: l w)
  have q: "filter (\<lambda>p. p \<noteq> []) (map trim (split_on CHR '','' (''a,'' @ [CHR 0xA0] @ ''b'')))
             = [''a'', ''b'']"
    by (simp add: trim_def is_space_def)
  have c: "\<lparr>fn_name = ''f'',
     fn_params = filter (\<lambda>p. p \<noteq> []) (map trim (split_on CHR '','' (''a,'' @ [CHR 0xA0] @ ''b''))),
     fn_async = None, fn_generator = None,
     fn_arrow = None, fn_line = 0 + 1, fn_exported = None, fn_isMethod = Some ([CHR 0xA0] \<noteq> [])\<rparr>
     \<in> set (fileFunctions (parsePython ([CHR 0xA0] @ ''def f(a,'' @ [CHR 0xA0] @ ''b):'')
                (initial_result ''m.py'' ([CHR 0xA0] @ ''def f(a,'' @ [CHR 0xA0] @ ''b):''))))"
    by (rule parsePython_function_line [where indent = "[CHR 0xA0]" and gap = "'' ''" and pad = "[]"
          and rest = "'':''"])
       (simp_all add: w is_space_def)
  from a b c show ?thesis
    unfolding p q by (simp add: eval_nat_numeral)
qed

lemma match_class_shape:
  assumes gap: "gap \<noteq> []" "\<forall>c \<in> set gap. is_space c"
      and cname: "cname \<noteq> []" "\<forall>c \<in> set cname. is_word_char c"
      and bases: "CHR '')'' \<notin> set bases"
  shows "match_class (''class'' @ gap @ cname @ ''('' @ bases @ ''):'' @ rest)
           = Some (cname, Some bases)"
proof -
  let ?t3 = "''('' @ bases @ ''):'' @ rest"
  let ?t2 = "cname @ ?t3"
  let ?t1 = "gap @ ?t2"
  have b0: "\<not> is_space (hd ?t2)"
    using cname by (cases cname) (simp_all add: word_char_not_space)
  have b: "takeWhile is_space ?t1 = gap" "dropWhile is_space ?t1 = ?t2"
    by (rule takeWhile_run dropWhile_run; use gap b0 in blast)+
  have c0: "\<not> is_word_char (hd ?t3)"
    by (simp add: is_word_char_def)
  have c: "takeWhile is_word_char ?t2 = cname" "dropWhile is_word_char ?t2 = ?t3"
    by (rule takeWhile_run dropWhile_run; use cname c0 in blast)+
  have e: "takeWhile (\<lambda>c. c \<noteq> CHR '')'') (bases @ ''):'' @ rest) = bases"
          "dropWhile (\<lambda>c. c \<noteq> CHR '')'') (bases @ ''):'' @ rest) = ''):'' @ rest"
    by (rule takeWhile_run dropWhile_run; use bases in auto)+
  have "match_class (''class'' @ ?t1) =
     (let s1 = drop 5 (''class'' @ ?t1) in
       let ws = takeWhile is_space s1;
            s2 = dropWhile is_space s1;
            cname' = takeWhile is_word_char s2;
            s3 = dropWhile is_word_char s2
        in if ws = [] \<or> cname' = [] then None
           else if startsWith s3 ''('' then
             let s4 = drop 1 s3;
                 bases = takeWhile (\<lambda>c. c \<noteq> CHR '')'') s4;
                 s5 = dropWhile (\<lambda>c. c \<noteq> CHR '')'') s4
             in if startsWith s5 ''):'' then Some (cname', Some bases) else None
           else if startsWith s3 '':'' then Some (cname', None)
           else None)"
    unfolding match_class_def by (simp add: Let_def)
  also have "drop 5 (''class'' @ ?t1) = ?t1" by simp
  finally show ?thesis
    unfolding Let_def b c using gap(1) cname(1) e by simp
qed

lemma match_func_class_line: "match_func (''class'' @ s) = None"
  by (simp add: match_func_def is_space_def)

lemma match_import_class_line: "match_import (''class'' @ s) = None"
  by (simp add: match_import_def)

text \<open>
  C7 (as the code has it). A line of a Python file that the class pattern matches with
  a parenthesised list (the word \<open>class\<close> at the start of the line, white space, the
  name, the list directly after the name, then a colon) yields a class record whose
  parent is the whole text between the parentheses, as it is written.
\<close>

theorem parsePython_class_parent:
  assumes "i < length (split_on CHR 0x0A content)"
      and "split_on CHR 0x0A content ! i = ''class'' @ gap @ cname @ ''('' @ bases @ ''):'' @ rest"
      and "gap \<noteq> []" and "\<forall>c \<in> set gap. is_space c"
      and "cname \<noteq> []" and "\<forall>c \<in> set cname. is_word_char c"
      and "CHR '')'' \<notin> set bases"
  shows "\<lparr>cls_name = Some cname, cls_superClass = Some bases, cls_methods = None,
          cls_line = i + 1, cls_exported = None\<rparr>
           \<in> set (fileClasses (parsePython content result))"
proof -
  let ?line = "''class'' @ gap @ cname @ ''('' @ bases @ ''):'' @ rest"
  have cl: "match_class ?line = Some (cname, Some bases)"
    using assms(3-7) by (rule match_class_shape)
  have mem: "(i + 1, ?line) \<in> set (zip [1 ..< length (split_on CHR 0x0A content) + 1]
                                        (split_on CHR 0x0A content))"
    using numbered_line [OF assms(1)] assms(2) by simp
  show ?thesis
    unfolding parsePython_def Let_def
    by (rule fold_python_line_class [OF mem])
       (simp only: python_line_class [OF match_import_class_line match_func_class_line cl], simp)
qed

theorem parsePython_class_parent_witness:
  "split_on CHR 0x0A ''class Child(Base):'' ! 0
     = ''class'' @ '' '' @ ''Child'' @ ''('' @ ''Base'' @ ''):'' @ [] \<and>
   \<lparr>cls_name = Some ''Child'', cls_superClass = Some ''Base'', cls_methods = None,
     cls_line = 1, cls_exported = None\<rparr>
     \<in> set (fileClasses (parsePython ''class Child(Base):''
                (initial_result ''models.py'' ''class Child(Base):'')))"
proof -
  have w: "\<forall>c \<in> set ''Child''. is_word_char c" "\<forall>c \<in> set '' ''. is_space c"
    by (simp_all add: is_word_char_def is_space_def)
  have l: "split_on CHR 0x0A ''class Child(Base):'' ! 0
     = ''class'' @ '' '' @ ''Child'' @ ''('' @ ''Base'' @ ''):'' @ []"
    by simp
  have "\<lparr>cls_name = Some ''Child'', cls_superClass = Some ''Base'', cls_methods = None,
          cls_line = 0 + 1, cls_exported = None\<rparr>
           \<in> set (fileClasses (parsePython ''class Child(Base):''
                      (initial_result ''models.py'' ''class Child(Base):'')))"
    by (rule parsePython_class_parent [where gap = "'' ''" and rest = "[]"]) (simp_all add: w)
  with l show ?thesis by simp
qed

text \<open>
  C7 as stated fails: for \<open>class Child(Base, Mixin):\<close> the parent recorded is
  \<open>Base, Mixin\<close>, not the first base \<open>Base\<close>; and the class definitions
  \<open>class Inner(Base):\<close> written with indentation and \<open>class Spaced (Base):\<close>
  written with a space before the list yield no class record at all.
\<close>

theorem parsePython_class_parent_counterexample:
  "fileClasses (parseFile acorn_sample never_interrupted host1 ''models.py''
                  ''class Child(Base, Mixin):'' \<lparr>showAst = False\<rparr>)
     = [\<lparr>cls_name = Some ''Child'', cls_superClass = Some ''Base, Mixin'', cls_methods = None,
         cls_line = 1, cls_exported = None\<rparr>] \<and>
   Some ''Base, Mixin'' \<noteq> Some ''Base'' \<and>
   fileClasses (parseFile acorn_sample never_interrupted host1 ''models.py''
                  ''    class Inner(Base):'' \<lparr>showAst = False\<rparr>) = [] \<and>
   fileClasses (parseFile acorn_sample never_interrupted host1 ''models.py''
                  ''class Spaced (Base):'' \<lparr>showAst = False\<rparr>) = []"
  by code_simp

section \<open>Properties of the ECMAScript parser\<close>

subsection \<open>The updates of the walk and of the loops after it\<close>

lemma fold_onComment:
  "fold onComment cs r =
     r\<lparr>fileComments := fileComments r @
        map (\<lambda>c. case c of (block, text, start, end) \<Rightarrow>
               \<lparr>cm_type = (if block then ''block'' else ''line''), cm_value = trim text,
                cm_start = start, cm_end = end\<rparr>) cs\<rparr>"
  by (induction cs arbitrary: r) (simp_all add: onComment_def split: prod.splits)

lemma parseFile_ecmascript:
  "is_ecmascript path \<Longrightarrow>
   parseFile acorn_parse interrupted h path content options
     = parseJavaScript acorn_parse interrupted content (initial_result path content) options"
  by (auto simp: parseFile_def is_ecmascript_def Let_def)

lemma error_message_nonempty: "error_message err \<noteq> []"
  by (cases err) (simp_all add: error_message_def)

lemma run_Nil: "run [] s = s"
  by (simp add: run_def)

lemma run_Cons: "run (f # fs) s = run fs (f s)"
  by (simp add: run_def)

lemma run_append: "run (fs @ gs) s = run gs (run fs s)"
  by (simp add: run_def)

lemma push_lists:
  "fileExports (push f r) = fileExports r @ fact_exports f"
  "fileFunctions (push f r) = fileFunctions r @ fact_functions f"
  "fileClasses (push f r) = fileClasses r @ fact_classes f"
  "fileVariables (push f r) = fileVariables r @ fact_variables f"
  "fileImports (push f r) = fileImports r @ fact_imports f"
  "fileComments (push f r) = fileComments r"
  "parseError (push f r) = parseError r"
  by (cases f; simp)+

lemma run_push_lists:
  "fileExports (run (map push fs) r) = fileExports r @ concat (map fact_exports fs)"
  "fileFunctions (run (map push fs) r) = fileFunctions r @ concat (map fact_functions fs)"
  "fileClasses (run (map push fs) r) = fileClasses r @ concat (map fact_classes fs)"
  "fileVariables (run (map push fs) r) = fileVariables r @ concat (map fact_variables fs)"
  "fileImports (run (map push fs) r) = fileImports r @ concat (map fact_imports fs)"
  "fileComments (run (map push fs) r) = fileComments r"
  "parseError (run (map push fs) r) = parseError r"
  by (induction fs arbitrary: r; simp add: run_Nil run_Cons push_lists)+

lemma fold_update:
  "n \<le> length xs \<Longrightarrow>
   fold (\<lambda>i ys. ys[i := g (ys ! i)]) [0 ..< n] xs = map g (take n xs) @ drop n xs"
proof (induction n)
  case 0
  show ?case by simp
next
  case (Suc n)
  then have n: "n < length xs" by simp
  have "fold (\<lambda>i ys. ys[i := g (ys ! i)]) [0 ..< Suc n] xs
          = (map g (take n xs) @ drop n xs)[n := g ((map g (take n xs) @ drop n xs) ! n)]"
    using Suc by simp
  also have "(map g (take n xs) @ drop n xs) ! n = xs ! n"
    using n by (simp add: nth_append)
  also have "(map g (take n xs) @ drop n xs)[n := g (xs ! n)]
          = map g (take n xs) @ (drop n xs)[0 := g (xs ! n)]"
    using n by (simp add: list_update_append)
  also have "(drop n xs)[0 := g (xs ! n)] = g (xs ! n) # drop (Suc n) xs"
    using n by (simp add: Cons_nth_drop_Suc [symmetric])
  also have "map g (take n xs) @ g (xs ! n) # drop (Suc n) xs
          = map g (take (Suc n) xs) @ drop (Suc n) xs"
    using n by (simp add: take_Suc_conv_app_nth)
  finally show ?case .
qed

lemma mark_function_fields:
  "fileFunctions (mark_function names i r) =
     (fileFunctions r)[i := (fileFunctions r ! i)
        \<lparr>fn_exported := Some (Some (fn_name (fileFunctions r ! i)) \<in> set names)\<rparr>]"
  "fileExports (mark_function names i r) = fileExports r"
  "fileClasses (mark_function names i r) = fileClasses r"
  "fileVariables (mark_function names i r) = fileVariables r"
  "parseError (mark_function names i r) = parseError r"
  by (simp_all add: mark_function_def Let_def)

lemma mark_class_fields:
  "fileClasses (mark_class names i r) =
     (fileClasses r)[i := (fileClasses r ! i)
        \<lparr>cls_exported := Some (cls_name (fileClasses r ! i) \<in> set names)\<rparr>]"
  "fileExports (mark_class names i r) = fileExports r"
  "fileFunctions (mark_class names i r) = fileFunctions r"
  "fileVariables (mark_class names i r) = fileVariables r"
  "parseError (mark_class names i r) = parseError r"
  by (simp_all add: mark_class_def Let_def)

lemma run_mark_functions:
  "fileFunctions (run (map (mark_function names) js) r) =
     fold (\<lambda>i ys. ys[i := (ys ! i)\<lparr>fn_exported := Some (Some (fn_name (ys ! i)) \<in> set names)\<rparr>])
       js (fileFunctions r)"
  "fileExports (run (map (mark_function names) js) r) = fileExports r"
  "fileClasses (run (map (mark_function names) js) r) = fileClasses r"
  "fileVariables (run (map (mark_function names) js) r) = fileVariables r"
  "parseError (run (map (mark_function names) js) r) = parseError r"
  by (induction js arbitrary: r; simp add: run_Nil run_Cons mark_function_fields)+

lemma run_mark_classes:
  "fileClasses (run (map (mark_class names) js) r) =
     fold (\<lambda>i ys. ys[i := (ys ! i)\<lparr>cls_exported := Some (cls_name (ys ! i) \<in> set names)\<rparr>])
       js (fileClasses r)"
  "fileExports (run (map (mark_class names) js) r) = fileExports r"
  "fileFunctions (run (map (mark_class names) js) r) = fileFunctions r"
  "fileVariables (run (map (mark_class names) js) r) = fileVariables r"
  "parseError (run (map (mark_class names) js) r) = parseError r"
  by (induction js arbitrary: r; simp add: run_Nil run_Cons mark_class_fields)+

lemma run_mark_steps:
  "fileFunctions (run (mark_steps r) r) =
     map (\<lambda>func. func\<lparr>fn_exported :=
            Some (Some (fn_name func) \<in> set (map exp_name (fileExports r)))\<rparr>) (fileFunctions r)"
  "fileClasses (run (mark_steps r) r) =
     map (\<lambda>cls. cls\<lparr>cls_exported :=
            Some (cls_name cls \<in> set (map exp_name (fileExports r)))\<rparr>) (fileClasses r)"
  "fileExports (run (mark_steps r) r) = fileExports r"
  "fileVariables (run (mark_steps r) r) = fileVariables r"
  "parseError (run (mark_steps r) r) = parseError r"
proof -
  let ?names = "map exp_name (fileExports r)"
  let ?g = "\<lambda>func. func\<lparr>fn_exported := Some (Some (fn_name func) \<in> set ?names)\<rparr>"
  let ?h = "\<lambda>cls. cls\<lparr>cls_exported := Some (cls_name cls \<in> set ?names)\<rparr>"
  have f: "fold (\<lambda>i ys. ys[i := ?g (ys ! i)]) [0 ..< length (fileFunctions r)] (fileFunctions r)
             = map ?g (fileFunctions r)"
    using fold_update [where g = ?g and xs = "fileFunctions r" and n = "length (fileFunctions r)"]
    by simp
  have c: "fold (\<lambda>i ys. ys[i := ?h (ys ! i)]) [0 ..< length (fileClasses r)] (fileClasses r)
             = map ?h (fileClasses r)"
    using fold_update [where g = ?h and xs = "fileClasses r" and n = "length (fileClasses r)"]
    by simp
  show "fileFunctions (run (mark_steps r) r) = map ?g (fileFunctions r)"
    unfolding mark_steps_def Let_def run_append
    by (simp only: run_mark_functions run_mark_classes f)
  show "fileClasses (run (mark_steps r) r) = map ?h (fileClasses r)"
    unfolding mark_steps_def Let_def run_append
    by (simp only: run_mark_functions run_mark_classes c)
  show "fileExports (run (mark_steps r) r) = fileExports r"
    unfolding mark_steps_def Let_def run_append
    by (simp only: run_mark_functions run_mark_classes)
  show "fileVariables (run (mark_steps r) r) = fileVariables r"
    unfolding mark_steps_def Let_def run_append
    by (simp only: run_mark_functions run_mark_classes)
  show "parseError (run (mark_steps r) r) = parseError r"
    unfolding mark_steps_def Let_def run_append
    by (simp only: run_mark_functions run_mark_classes)
qed

lemma initial_lists:
  "fileExports (initial_result p c) = []" "fileFunctions (initial_result p c) = []"
  "fileClasses (initial_result p c) = []" "fileVariables (initial_result p c) = []"
  "fileImports (initial_result p c) = []" "fileComments (initial_result p c) = []"
  "parseError (initial_result p c) = None"
  by (simp_all add: initial_result_def)

lemma fold_onComment_lists:
  "fileExports (fold onComment cs r) = fileExports r"
  "fileFunctions (fold onComment cs r) = fileFunctions r"
  "fileClasses (fold onComment cs r) = fileClasses r"
  "fileVariables (fold onComment cs r) = fileVariables r"
  "fileImports (fold onComment cs r) = fileImports r"
  "parseError (fold onComment cs r) = parseError r"
  by (induction cs arbitrary: r; simp add: onComment_def split: prod.splits)+

lemma concat_facts:
  "concat (map fact_exports (concat (map visit ns))) = concat (map node_exports ns)"
  "concat (map fact_functions (concat (map visit ns))) = concat (map node_functions ns)"
  "concat (map fact_classes (concat (map visit ns))) = concat (map node_classes ns)"
  "concat (map fact_variables (concat (map visit ns))) = concat (map node_variables ns)"
  by (induction ns; simp add: node_exports_def node_functions_def node_classes_def
      node_variables_def)+

lemma parseJavaScript_completed:
  assumes "acorn_parse content = (reported, Inr tree)"
      and "parseError (parseJavaScript acorn_parse interrupted content result options) = None"
  shows "parseJavaScript acorn_parse interrupted content result options =
           run (mark_steps
                  (run (map push (concat (map visit (postorder tree))))
                     (if showAst options then (fold onComment reported result)\<lparr>ast := Some tree\<rparr>
                      else fold onComment reported result)))
               (run (map push (concat (map visit (postorder tree))))
                  (if showAst options then (fold onComment reported result)\<lparr>ast := Some tree\<rparr>
                   else fold onComment reported result))"
  using assms
  by (auto simp: parseJavaScript_def Let_def run_append split: option.splits if_splits)

lemma parseFile_success:
  assumes "is_ecmascript path" and "acorn_parse content = (reported, Inr tree)"
      and "parseError (parseFile acorn_parse interrupted h path content options) = None"
  shows "fileExports (parseFile acorn_parse interrupted h path content options)
           = concat (map node_exports (postorder tree))"
    and "fileVariables (parseFile acorn_parse interrupted h path content options)
           = concat (map node_variables (postorder tree))"
    and "fileFunctions (parseFile acorn_parse interrupted h path content options)
           = map (\<lambda>func. func\<lparr>fn_exported :=
                    Some (Some (fn_name func)
                            \<in> set (map exp_name (concat (map node_exports (postorder tree)))))\<rparr>)
               (concat (map node_functions (postorder tree)))"
    and "fileClasses (parseFile acorn_parse interrupted h path content options)
           = map (\<lambda>cls. cls\<lparr>cls_exported :=
                    Some (cls_name cls
                            \<in> set (map exp_name (concat (map node_exports (postorder tree)))))\<rparr>)
               (concat (map node_classes (postorder tree)))"
proof -
  let ?R = "parseFile acorn_parse interrupted h path content options"
  let ?r0 = "if showAst options
             then (fold onComment reported (initial_result path content))\<lparr>ast := Some tree\<rparr>
             else fold onComment reported (initial_result path content)"
  let ?r1 = "run (map push (concat (map visit (postorder tree)))) ?r0"
  have R: "?R = run (mark_steps ?r1) ?r1"
    using assms(3) parseJavaScript_completed [where acorn_parse = acorn_parse
        and content = content and reported = reported and tree = tree
        and interrupted = interrupted and result = "initial_result path content"
        and options = options, OF assms(2)]
    by (simp add: parseFile_ecmascript [OF assms(1)])
  have r0: "fileExports ?r0 = []" "fileFunctions ?r0 = []" "fileClasses ?r0 = []"
           "fileVariables ?r0 = []"
    by (simp_all add: fold_onComment_lists initial_lists)
  have r1: "fileExports ?r1 = concat (map node_exports (postorder tree))"
           "fileFunctions ?r1 = concat (map node_functions (postorder tree))"
           "fileClasses ?r1 = concat (map node_classes (postorder tree))"
           "fileVariables ?r1 = concat (map node_variables (postorder tree))"
    by (simp_all only: run_push_lists r0 concat_facts append_Nil)
  show "fileExports ?R = concat (map node_exports (postorder tree))"
    by (simp only: R run_mark_steps r1)
  show "fileVariables ?R = concat (map node_variables (postorder tree))"
    by (simp only: R run_mark_steps r1)
  show "fileFunctions ?R
           = map (\<lambda>func. func\<lparr>fn_exported :=
                    Some (Some (fn_name func)
                            \<in> set (map exp_name (concat (map node_exports (postorder tree)))))\<rparr>)
               (concat (map node_functions (postorder tree)))"
    by (simp only: R run_mark_steps r1)
  show "fileClasses ?R
           = map (\<lambda>cls. cls\<lparr>cls_exported :=
                    Some (cls_name cls
                            \<in> set (map exp_name (concat (map node_exports (postorder tree)))))\<rparr>)
               (concat (map node_classes (postorder tree)))"
    by (simp only: R run_mark_steps r1)
qed

lemma parseFile_interrupted:
  assumes "is_ecmascript path" and "acorn_parse content = (reported, Inr tree)"
      and "interrupted tree = Some (n, err)"
      and "n < length (concat (map visit (postorder tree)))"
  shows "parseError (parseFile acorn_parse interrupted h path content options)
           = Some (error_message err)"
    and "fileExports (parseFile acorn_parse interrupted h path content options)
           = concat (map fact_exports (take n (concat (map visit (postorder tree)))))"
    and "fileFunctions (parseFile acorn_parse interrupted h path content options)
           = concat (map fact_functions (take n (concat (map visit (postorder tree)))))"
    and "fileClasses (parseFile acorn_parse interrupted h path content options)
           = concat (map fact_classes (take n (concat (map visit (postorder tree)))))"
    and "fileVariables (parseFile acorn_parse interrupted h path content options)
           = concat (map fact_variables (take n (concat (map visit (postorder tree)))))"
proof -
  let ?R = "parseFile acorn_parse interrupted h path content options"
  let ?r0 = "if showAst options
             then (fold onComment reported (initial_result path content))\<lparr>ast := Some tree\<rparr>
             else fold onComment reported (initial_result path content)"
  let ?facts = "concat (map visit (postorder tree))"
  have R: "?R = (run (map push (take n ?facts)) ?r0)\<lparr>parseError := Some (error_message err)\<rparr>"
    using assms(2-4)
    by (simp add: parseFile_ecmascript [OF assms(1)] parseJavaScript_def Let_def take_map)
  have r0: "fileExports ?r0 = []" "fileFunctions ?r0 = []" "fileClasses ?r0 = []"
           "fileVariables ?r0 = []"
    by (simp_all add: fold_onComment_lists initial_lists)
  show "parseError ?R = Some (error_message err)"
    by (simp add: R)
  show "fileExports ?R = concat (map fact_exports (take n ?facts))"
    unfolding R by (simp add: run_push_lists r0 del: if_split)
  show "fileFunctions ?R = concat (map fact_functions (take n ?facts))"
    unfolding R by (simp add: run_push_lists r0)
  show "fileClasses ?R = concat (map fact_classes (take n ?facts))"
    unfolding R by (simp add: run_push_lists r0)
  show "fileVariables ?R = concat (map fact_variables (take n ?facts))"
    unfolding R by (simp add: run_push_lists r0)
qed

subsection \<open>The parse fails\<close>

text \<open>
  C1 (as the code has it). For a file with an ECMAScript extension whose parse fails,
  \<open>parseFile\<close> returns a record: \<open>parseError\<close> is the message of the parser's
  error, which is not empty; the lists of imports, exports, functions, classes and
  variables are empty; the list of comments holds the comments that the parser reported
  before it failed.
\<close>

theorem parseFile_parse_failure:
  assumes "is_ecmascript path" and "acorn_parse content = (reported, Inl err)"
  shows "parseError (parseFile acorn_parse interrupted h path content options)
           = Some (error_message err) \<and>
         error_message err \<noteq> [] \<and>
         fileImports (parseFile acorn_parse interrupted h path content options) = [] \<and>
         fileExports (parseFile acorn_parse interrupted h path content options) = [] \<and>
         fileFunctions (parseFile acorn_parse interrupted h path content options) = [] \<and>
         fileClasses (parseFile acorn_parse interrupted h path content options) = [] \<and>
         fileVariables (parseFile acorn_parse interrupted h path content options) = [] \<and>
         fileComments (parseFile acorn_parse interrupted h path content options) =
           map (\<lambda>c. case c of (block, text, start, end) \<Rightarrow>
                  \<lparr>cm_type = (if block then ''block'' else ''line''), cm_value = trim text,
                   cm_start = start, cm_end = end\<rparr>) reported"
  using assms
  by (simp add: parseFile_ecmascript parseJavaScript_def fold_onComment initial_result_def
      error_message_nonempty)

theorem parseFile_parse_failure_witness:
  "is_ecmascript ''a.js'' \<and>
   acorn_sample unbalanced_source
     = ([(True, '' c '', 0, 7)], Inl (SyntaxError ''Unexpected token'' 1 8)) \<and>
   fileImports (parseFile acorn_sample never_interrupted host1 ''a.js'' unbalanced_source
                  \<lparr>showAst = False\<rparr>) = [] \<and>
   fileFunctions (parseFile acorn_sample never_interrupted host1 ''a.js'' unbalanced_source
                    \<lparr>showAst = False\<rparr>) = [] \<and>
   parseError (parseFile acorn_sample never_interrupted host1 ''a.js'' unbalanced_source
                 \<lparr>showAst = False\<rparr>)
     = Some (error_message (SyntaxError ''Unexpected token'' 1 8)) \<and>
   error_message (SyntaxError ''Unexpected token'' 1 8) \<noteq> []"
proof -
  have e: "is_ecmascript ''a.js''"
    by (simp add: is_ecmascript_def extname_def basename_def)
  have a: "acorn_sample unbalanced_source
             = ([(True, '' c '', 0, 7)], Inl (SyntaxError ''Unexpected token'' 1 8))"
    by (simp add: acorn_sample_def)
  from parseFile_parse_failure [where acorn_parse = acorn_sample and content = unbalanced_source
         and path = "''a.js''" and h = host1 and options = "\<lparr>showAst = False\<rparr>"
         and interrupted = never_interrupted, OF e a] e a
  show ?thesis by blast
qed

text \<open>
  C1 as stated fails: for the text \<open>/* c */ }\<close> the parse fails and the list of
  comments is not empty.
\<close>

theorem parseFile_parse_failure_counterexample:
  "parseError (parseFile acorn_sample never_interrupted host1 ''a.js'' unbalanced_source
                 \<lparr>showAst = False\<rparr>)
     = Some ''Unexpected token (1:8)'' \<and>
   fileComments (parseFile acorn_sample never_interrupted host1 ''a.js'' unbalanced_source
                   \<lparr>showAst = False\<rparr>)
     = [\<lparr>cm_type = ''block'', cm_value = ''c'', cm_start = 0, cm_end = 7\<rparr>] \<and>
   fileComments (parseFile acorn_sample never_interrupted host1 ''a.js'' unbalanced_source
                   \<lparr>showAst = False\<rparr>) \<noteq> []"
  by code_simp

subsection \<open>The walk\<close>

lemma postorder_last: "postorder n \<noteq> [] \<and> last (postorder n) = n"
  by (cases n) simp_all

lemma postorder_self: "n \<in> set (postorder n)"
  using postorder_last [of n] last_in_set by metis

lemma closed_children:
  assumes "\<And>c. c \<in> set cs \<Longrightarrow> \<forall>m \<in> set (postorder c). set (postorder m) \<subseteq> set (postorder c)"
  shows "\<forall>m \<in> set (concat (map postorder cs)). set (postorder m) \<subseteq> set (concat (map postorder cs))"
  using assms by fastforce

lemma closed_with_self:
  assumes "\<forall>m \<in> set xs. set (postorder m) \<subseteq> set xs" and "postorder n = xs @ [n]"
  shows "\<forall>m \<in> set (postorder n). set (postorder m) \<subseteq> set (postorder n)"
  using assms by auto

lemma postorder_closed_aux:
  "(\<forall>m \<in> set (postorder t). set (postorder m) \<subseteq> set (postorder t))"
  "(\<forall>m \<in> set (postorder_declarator d). set (postorder m) \<subseteq> set (postorder_declarator d))"
proof (induction t and d)
  case (ImportDeclaration l s sp)
  show ?case by simp
next
  case (ExportNamedDeclaration l x sp)
  show ?case
  proof (cases x)
    case None
    then show ?thesis by simp
  next
    case (Some n)
    with ExportNamedDeclaration have "\<forall>m \<in> set (postorder n). set (postorder m) \<subseteq> set (postorder n)"
      by simp
    then show ?thesis
      by (rule closed_with_self) (simp add: Some)
  qed
next
  case (ExportDefaultDeclaration l n)
  then show ?case by (rule closed_with_self) simp
next
  case (FunctionDeclaration l i ps a g cs)
  have "\<forall>m \<in> set (concat (map postorder cs)).
          set (postorder m) \<subseteq> set (concat (map postorder cs))"
    by (rule closed_children) (use FunctionDeclaration in simp)
  then show ?case
    by (rule closed_with_self) simp
next
  case (ClassDeclaration l i sc ms cs)
  have "\<forall>m \<in> set (concat (map postorder cs)).
          set (postorder m) \<subseteq> set (concat (map postorder cs))"
    by (rule closed_children) (use ClassDeclaration in simp)
  then show ?case
    by (rule closed_with_self) simp
next
  case (VariableDeclaration l k ds)
  have "\<forall>m \<in> set (concat (map postorder_declarator ds)).
          set (postorder m) \<subseteq> set (concat (map postorder_declarator ds))"
    using VariableDeclaration by fastforce
  then show ?case
    by (rule closed_with_self) simp
next
  case (FunctionExpression i ps a cs)
  have "\<forall>m \<in> set (concat (map postorder cs)).
          set (postorder m) \<subseteq> set (concat (map postorder cs))"
    by (rule closed_children) (use FunctionExpression in simp)
  then show ?case
    by (rule closed_with_self) simp
next
  case (ArrowFunctionExpression ps a cs)
  have "\<forall>m \<in> set (concat (map postorder cs)).
          set (postorder m) \<subseteq> set (concat (map postorder cs))"
    by (rule closed_children) (use ArrowFunctionExpression in simp)
  then show ?case
    by (rule closed_with_self) simp
next
  case (ClassExpression i cs)
  have "\<forall>m \<in> set (concat (map postorder cs)).
          set (postorder m) \<subseteq> set (concat (map postorder cs))"
    by (rule closed_children) (use ClassExpression in simp)
  then show ?case
    by (rule closed_with_self) simp
next
  case (Identifier n)
  show ?case by simp
next
  case (OtherNode cs)
  have "\<forall>m \<in> set (concat (map postorder cs)).
          set (postorder m) \<subseteq> set (concat (map postorder cs))"
    by (rule closed_children) (use OtherNode in simp)
  then show ?case
    by (rule closed_with_self) simp
next
  case (VariableDeclarator i cs init)
  have c: "\<forall>m \<in> set (concat (map postorder cs)). set (postorder m) \<subseteq> set (concat (map postorder cs))"
    by (rule closed_children) (use VariableDeclarator in simp)
  show ?case
  proof (cases init)
    case None
    with c show ?thesis by simp
  next
    case (Some e)
    with VariableDeclarator have "\<forall>m \<in> set (postorder e). set (postorder m) \<subseteq> set (postorder e)"
      by simp
    with c Some show ?thesis by auto
  qed
qed

lemma postorder_closed:
  "m \<in> set (postorder t) \<Longrightarrow> set (postorder m) \<subseteq> set (postorder t)"
  using postorder_closed_aux(1) by blast

subsection \<open>Variable declarations\<close>

lemma fact_of_facts:
  "concat (map fact_exports (map ExportFact xs)) = xs"
  by (induction xs) simp_all



lemma declarator_exports:
  "concat (map fact_exports (visit_declarator l k d)) = []"
  by (induction l k d rule: visit_declarator.induct) simp_all

lemma declarators_exports:
  "concat (map fact_exports (concat (map (visit_declarator l k) ds))) = []"
  by (induction ds) (simp_all add: declarator_exports)





subsection \<open>The deep tree\<close>

lemma visit_member_chain: "concat (map visit (postorder (member_chain n))) = []"
  by (induction n) simp_all

lemma deep_facts:
  "concat (map visit (postorder deep_tree)) =
     [FunctionFact
        \<lparr>fn_name = ''f'', fn_params = [], fn_async = Some False, fn_generator = Some False,
         fn_arrow = None, fn_line = 1, fn_exported = Some False, fn_isMethod = None\<rparr>,
      ExportFact \<lparr>exp_type = ''function'', exp_name = Some ''f'', exp_line = 1\<rparr>,
      FunctionFact
        \<lparr>fn_name = ''g'', fn_params = [], fn_async = Some False, fn_generator = None,
         fn_arrow = Some True, fn_line = 2, fn_exported = None, fn_isMethod = None\<rparr>]"
  by (simp add: deep_tree_def visit_member_chain name_or_anonymous_def)

lemma deep_run:
  "parseError (parseFile acorn_deep stack_exhausted host1 ''a.js'' deep_source \<lparr>showAst = False\<rparr>)
     = Some ''Maximum call stack size exceeded''"
  "fileExports (parseFile acorn_deep stack_exhausted host1 ''a.js'' deep_source \<lparr>showAst = False\<rparr>)
     = [\<lparr>exp_type = ''function'', exp_name = Some ''f'', exp_line = 1\<rparr>]"
  "fileFunctions (parseFile acorn_deep stack_exhausted host1 ''a.js'' deep_source \<lparr>showAst = False\<rparr>)
     = [\<lparr>fn_name = ''f'', fn_params = [], fn_async = Some False, fn_generator = Some False,
         fn_arrow = None, fn_line = 1, fn_exported = Some False, fn_isMethod = None\<rparr>]"
  "fileVariables (parseFile acorn_deep stack_exhausted host1 ''a.js'' deep_source \<lparr>showAst = False\<rparr>)
     = []"
proof -
  have e: "is_ecmascript ''a.js''"
    by (simp add: is_ecmascript_def extname_def basename_def)
  have a: "acorn_deep deep_source = ([], Inr deep_tree)"
    by (simp add: acorn_deep_def)
  have i: "stack_exhausted deep_tree = Some (2, RangeError)"
    by (simp add: stack_exhausted_def)
  have n: "2 < length (concat (map visit (postorder deep_tree)))"
    by (simp add: deep_facts)
  note r = parseFile_interrupted [where acorn_parse = acorn_deep and content = deep_source
      and interrupted = stack_exhausted and h = host1 and options = "\<lparr>showAst = False\<rparr>"
      and path = "''a.js''" and tree = deep_tree and reported = "[]" and n = 2
      and err = RangeError, OF e a i n]
  show "parseError (parseFile acorn_deep stack_exhausted host1 ''a.js'' deep_source \<lparr>showAst = False\<rparr>)
     = Some ''Maximum call stack size exceeded''"
    by (simp add: r(1) error_message_def)
  show "fileExports (parseFile acorn_deep stack_exhausted host1 ''a.js'' deep_source \<lparr>showAst = False\<rparr>)
     = [\<lparr>exp_type = ''function'', exp_name = Some ''f'', exp_line = 1\<rparr>]"
    by (simp add: r(2) deep_facts)
  show "fileFunctions (parseFile acorn_deep stack_exhausted host1 ''a.js'' deep_source \<lparr>showAst = False\<rparr>)
     = [\<lparr>fn_name = ''f'', fn_params = [], fn_async = Some False, fn_generator = Some False,
         fn_arrow = None, fn_line = 1, fn_exported = Some False, fn_isMethod = None\<rparr>]"
    by (simp add: r(3) deep_facts)
  show "fileVariables (parseFile acorn_deep stack_exhausted host1 ''a.js'' deep_source \<lparr>showAst = False\<rparr>)
     = []"
    by (simp add: r(5) deep_facts)
qed




subsection \<open>Exports and declarations\<close>

lemma exported_declaration_visited:
  assumes "ExportNamedDeclaration l (Some d) sp \<in> set (postorder tree)"
  shows "d \<in> set (postorder tree)"
proof -
  have "d \<in> set (postorder (ExportNamedDeclaration l (Some d) sp))"
    by (simp add: postorder_self)
  with postorder_closed [OF assms] show ?thesis by blast
qed

lemma declarator_export_type:
  "exp_type (case decl of VariableDeclarator i cs init \<Rightarrow>
               \<lparr>exp_type = ''variable'', exp_name = i, exp_line = line\<rparr>) = ''variable''"
  by (cases decl) simp

lemma function_export_origin:
  assumes "e \<in> set (node_exports n)" and "exp_type e = ''function''"
  shows "\<exists>l l' i ps a g cs sp.
           n = ExportNamedDeclaration l (Some (FunctionDeclaration l' i ps a g cs)) sp \<and>
           exp_name e = i"
proof (cases n)
  case (ExportNamedDeclaration l x sp)
  show ?thesis
  proof (cases x)
    case None
    with assms ExportNamedDeclaration show ?thesis
      by (auto simp: node_exports_def fact_of_facts)
  next
    case (Some d)
    with assms ExportNamedDeclaration show ?thesis
      by (cases d) (auto simp: node_exports_def fact_of_facts declarator_export_type)
  qed
qed (use assms in \<open>auto simp: node_exports_def declarators_exports\<close>)

lemma class_export_origin:
  assumes "e \<in> set (node_exports n)" and "exp_type e = ''class''"
  shows "\<exists>l l' i sc ms cs sp.
           n = ExportNamedDeclaration l (Some (ClassDeclaration l' i sc ms cs)) sp \<and>
           exp_name e = i"
proof (cases n)
  case (ExportNamedDeclaration l x sp)
  show ?thesis
  proof (cases x)
    case None
    with assms ExportNamedDeclaration show ?thesis
      by (auto simp: node_exports_def fact_of_facts)
  next
    case (Some d)
    with assms ExportNamedDeclaration show ?thesis
      by (cases d) (auto simp: node_exports_def fact_of_facts declarator_export_type)
  qed
qed (use assms in \<open>auto simp: node_exports_def declarators_exports\<close>)

lemma node_functions_declaration:
  "node_functions (FunctionDeclaration l i ps a g cs) =
     [\<lparr>fn_name = name_or_anonymous i, fn_params = map param_name ps, fn_async = Some a,
       fn_generator = Some g, fn_arrow = None, fn_line = l, fn_exported = Some False,
       fn_isMethod = None\<rparr>]"
  by (simp add: node_functions_def)

lemma node_classes_declaration:
  "node_classes (ClassDeclaration l i sc ms cs) =
     [\<lparr>cls_name = i, cls_superClass = sc, cls_methods = Some (concat (map member_methods ms)),
       cls_line = l, cls_exported = None\<rparr>]"
  by (simp add: node_classes_def)

text \<open>
  C2 (as the code has it). After a parse of an ECMAScript file that succeeds and an
  extraction that ends without a \<open>parseError\<close>, the \<open>exported\<close> flag of every
  function and of every class is membership of its name in the names of all exports, of
  whatever kind; every export of kind \<open>function\<close> with a name, and every export of kind
  \<open>class\<close>, has a declaration of that name in the list of functions, respectively
  classes, whose flag is true.
\<close>

theorem parseFile_exported_flags:
  assumes "is_ecmascript path" and "acorn_parse content = (reported, Inr tree)"
      and "parseError (parseFile acorn_parse interrupted h path content options) = None"
  shows "(\<forall>f \<in> set (fileFunctions (parseFile acorn_parse interrupted h path content options)).
            fn_exported f = Some (Some (fn_name f) \<in> set (map exp_name
              (fileExports (parseFile acorn_parse interrupted h path content options))))) \<and>
         (\<forall>c \<in> set (fileClasses (parseFile acorn_parse interrupted h path content options)).
            cls_exported c = Some (cls_name c \<in> set (map exp_name
              (fileExports (parseFile acorn_parse interrupted h path content options))))) \<and>
         (\<forall>e \<in> set (fileExports (parseFile acorn_parse interrupted h path content options)).
            \<forall>n. exp_type e = ''function'' \<and> exp_name e = Some n \<and> n \<noteq> [] \<longrightarrow>
              (\<exists>f \<in> set (fileFunctions (parseFile acorn_parse interrupted h path content options)).
                 fn_name f = n \<and> fn_exported f = Some True)) \<and>
         (\<forall>e \<in> set (fileExports (parseFile acorn_parse interrupted h path content options)).
            exp_type e = ''class'' \<longrightarrow>
              (\<exists>c \<in> set (fileClasses (parseFile acorn_parse interrupted h path content options)).
                 cls_name c = exp_name e \<and> cls_exported c = Some True))"
proof -
  let ?R = "parseFile acorn_parse interrupted h path content options"
  let ?E = "set (map exp_name (fileExports ?R))"
  note s = parseFile_success [where acorn_parse = acorn_parse and content = content and h = h
      and options = options and interrupted = interrupted and path = path
      and reported = reported and tree = tree, OF assms]
  have fl: "\<forall>f \<in> set (fileFunctions ?R). fn_exported f = Some (Some (fn_name f) \<in> ?E)"
    unfolding s by auto
  have cl: "\<forall>c \<in> set (fileClasses ?R). cls_exported c = Some (cls_name c \<in> ?E)"
    unfolding s by auto
  have fmem: "\<And>n f. n \<in> set (postorder tree) \<Longrightarrow> f \<in> set (node_functions n) \<Longrightarrow>
                \<exists>f' \<in> set (fileFunctions ?R). fn_name f' = fn_name f"
    unfolding s(3) by force
  have cmem: "\<And>n c. n \<in> set (postorder tree) \<Longrightarrow> c \<in> set (node_classes n) \<Longrightarrow>
                \<exists>c' \<in> set (fileClasses ?R). cls_name c' = cls_name c"
    unfolding s(4) by force
  have fe: "\<exists>f \<in> set (fileFunctions ?R). fn_name f = n \<and> fn_exported f = Some True"
    if e: "e \<in> set (fileExports ?R)" "exp_type e = ''function''" "exp_name e = Some n" "n \<noteq> []"
    for e n
  proof -
    from e(1) obtain m where m: "m \<in> set (postorder tree)" "e \<in> set (node_exports m)"
      unfolding s(1) by auto
    from function_export_origin [OF m(2) e(2)] obtain l l' i ps a g cs sp
      where o: "m = ExportNamedDeclaration l (Some (FunctionDeclaration l' i ps a g cs)) sp"
               "exp_name e = i"
      by blast
    from m(1) o(1) have "FunctionDeclaration l' i ps a g cs \<in> set (postorder tree)"
      using exported_declaration_visited by blast
    from fmem [OF this, unfolded node_functions_declaration] obtain f
      where f: "f \<in> set (fileFunctions ?R)" "fn_name f = name_or_anonymous i"
      by auto
    from o(2) e(3,4) have "name_or_anonymous i = n"
      by (auto simp: name_or_anonymous_def)
    moreover have "Some n \<in> ?E"
      using e(1,3) by force
    ultimately show ?thesis
      using f fl by auto
  qed
  have ce: "\<exists>c \<in> set (fileClasses ?R). cls_name c = exp_name e \<and> cls_exported c = Some True"
    if e: "e \<in> set (fileExports ?R)" "exp_type e = ''class''"
    for e
  proof -
    from e(1) obtain m where m: "m \<in> set (postorder tree)" "e \<in> set (node_exports m)"
      unfolding s(1) by auto
    from class_export_origin [OF m(2) e(2)] obtain l l' i sc ms cs sp
      where o: "m = ExportNamedDeclaration l (Some (ClassDeclaration l' i sc ms cs)) sp"
               "exp_name e = i"
      by blast
    from m(1) o(1) have "ClassDeclaration l' i sc ms cs \<in> set (postorder tree)"
      using exported_declaration_visited by blast
    from cmem [OF this, unfolded node_classes_declaration] obtain c
      where c: "c \<in> set (fileClasses ?R)" "cls_name c = i"
      by auto
    moreover have "exp_name e \<in> ?E"
      using e(1) by force
    ultimately show ?thesis
      using o(2) cl by auto
  qed
  from fl cl fe ce show ?thesis by blast
qed

theorem parseFile_exported_flags_witness:
  "is_ecmascript ''a.js'' \<and> acorn_sample exported_source = ([], Inr exported_tree) \<and>
   parseError (parseFile acorn_sample never_interrupted host1 ''a.js'' exported_source
                 \<lparr>showAst = False\<rparr>) = None \<and>
   \<lparr>exp_type = ''function'', exp_name = Some ''g'', exp_line = 1\<rparr>
     \<in> set (fileExports (parseFile acorn_sample never_interrupted host1 ''a.js'' exported_source
                            \<lparr>showAst = False\<rparr>)) \<and>
   (\<exists>f. f \<in> set (fileFunctions (parseFile acorn_sample never_interrupted host1 ''a.js''
                                   exported_source \<lparr>showAst = False\<rparr>)) \<and>
        fn_name f = ''g'' \<and> fn_exported f = Some True) \<and>
   \<lparr>exp_type = ''class'', exp_name = Some ''K'', exp_line = 2\<rparr>
     \<in> set (fileExports (parseFile acorn_sample never_interrupted host1 ''a.js'' exported_source
                            \<lparr>showAst = False\<rparr>)) \<and>
   (\<exists>c. c \<in> set (fileClasses (parseFile acorn_sample never_interrupted host1 ''a.js''
                                 exported_source \<lparr>showAst = False\<rparr>)) \<and>
        cls_name c = Some ''K'' \<and> cls_exported c = Some True)"
proof -
  let ?R = "parseFile acorn_sample never_interrupted host1 ''a.js'' exported_source
              \<lparr>showAst = False\<rparr>"
  have e: "is_ecmascript ''a.js''"
    by (simp add: is_ecmascript_def extname_def basename_def)
  have a: "acorn_sample exported_source = ([], Inr exported_tree)"
    by code_simp
  have n: "parseError ?R = None"
    by code_simp
  have g: "\<lparr>exp_type = ''function'', exp_name = Some ''g'', exp_line = 1\<rparr>
             \<in> set (fileExports ?R)"
    by code_simp
  have k: "\<lparr>exp_type = ''class'', exp_name = Some ''K'', exp_line = 2\<rparr>
             \<in> set (fileExports ?R)"
    by code_simp
  note t = parseFile_exported_flags [where acorn_parse = acorn_sample
         and content = exported_source and path = "''a.js''" and h = host1
         and options = "\<lparr>showAst = False\<rparr>" and interrupted = never_interrupted
         and reported = "[]" and tree = exported_tree, OF e a n]
  from t have "\<forall>e \<in> set (fileExports ?R).
            \<forall>n. exp_type e = ''function'' \<and> exp_name e = Some n \<and> n \<noteq> [] \<longrightarrow>
              (\<exists>f \<in> set (fileFunctions ?R). fn_name f = n \<and> fn_exported f = Some True)"
    by blast
  from this g have f: "\<exists>f. f \<in> set (fileFunctions ?R) \<and> fn_name f = ''g'' \<and>
                           fn_exported f = Some True"
    by force
  from t have "\<forall>e \<in> set (fileExports ?R).
            exp_type e = ''class'' \<longrightarrow>
              (\<exists>c \<in> set (fileClasses ?R). cls_name c = exp_name e \<and> cls_exported c = Some True)"
    by blast
  from this k have c: "\<exists>c. c \<in> set (fileClasses ?R) \<and> cls_name c = Some ''K'' \<and>
                           cls_exported c = Some True"
    by force
  from e a n g f k c show ?thesis by blast
qed

text \<open>
  C2 as stated fails, in two ways. For \<open>function f() {}\<close> followed by
  \<open>export { f };\<close> the function \<open>f\<close> is flagged as exported although no export of
  kind \<open>function\<close> or \<open>class\<close> names it: the only export is of kind \<open>reexport\<close>.
  And for the text \<open>deep_source\<close>, which parses, the walker exhausts the call stack
  after the first line, the loops that set the flags never run, and the function \<open>f\<close>
  keeps the flag \<open>false\<close> beside the export of kind \<open>function\<close> that names it.
\<close>

theorem parseFile_exported_flags_counterexample:
  "fileExports (parseFile acorn_sample never_interrupted host1 ''a.js'' export_list_source
                  \<lparr>showAst = False\<rparr>)
     = [\<lparr>exp_type = ''reexport'', exp_name = Some ''f'', exp_line = 2\<rparr>] \<and>
   fileFunctions (parseFile acorn_sample never_interrupted host1 ''a.js'' export_list_source
                    \<lparr>showAst = False\<rparr>)
     = [\<lparr>fn_name = ''f'', fn_params = [], fn_async = Some False, fn_generator = Some False,
         fn_arrow = None, fn_line = 1, fn_exported = Some True, fn_isMethod = None\<rparr>] \<and>
   parseError (parseFile acorn_sample never_interrupted host1 ''a.js'' export_list_source
                 \<lparr>showAst = False\<rparr>) = None \<and>
   acorn_deep deep_source = ([], Inr deep_tree) \<and>
   fileExports (parseFile acorn_deep stack_exhausted host1 ''a.js'' deep_source
                  \<lparr>showAst = False\<rparr>)
     = [\<lparr>exp_type = ''function'', exp_name = Some ''f'', exp_line = 1\<rparr>] \<and>
   fileFunctions (parseFile acorn_deep stack_exhausted host1 ''a.js'' deep_source
                    \<lparr>showAst = False\<rparr>)
     = [\<lparr>fn_name = ''f'', fn_params = [], fn_async = Some False, fn_generator = Some False,
         fn_arrow = None, fn_line = 1, fn_exported = Some False, fn_isMethod = None\<rparr>]"
proof -
  have x: "fileExports (parseFile acorn_sample never_interrupted host1 ''a.js''
                          export_list_source \<lparr>showAst = False\<rparr>)
             = [\<lparr>exp_type = ''reexport'', exp_name = Some ''f'', exp_line = 2\<rparr>]"
    by code_simp
  have f: "fileFunctions (parseFile acorn_sample never_interrupted host1 ''a.js''
                            export_list_source \<lparr>showAst = False\<rparr>)
     = [\<lparr>fn_name = ''f'', fn_params = [], fn_async = Some False, fn_generator = Some False,
         fn_arrow = None, fn_line = 1, fn_exported = Some True, fn_isMethod = None\<rparr>]"
    by code_simp
  have n: "parseError (parseFile acorn_sample never_interrupted host1 ''a.js''
                         export_list_source \<lparr>showAst = False\<rparr>) = None"
    by code_simp
  have a: "acorn_deep deep_source = ([], Inr deep_tree)"
    by (simp add: acorn_deep_def)
  from x f n a deep_run(2) deep_run(3) show ?thesis
    by (intro conjI)
qed

end
